theory Spec2Isabelle
  imports Main
begin

section \<open>Interactive select and multiselect printers (pterm, generic variants)\<close>

text \<open>
  The two source files implement one design twice: a candidate list, a fuzzy filter over
  it, a focus index into the filtered list and a window \<open>[start, end)\<close> of visible rows.
  The engines are embedded as state-passing functions over records of the struct fields
  that carry state. Go's \<open>int\<close> is modelled as \<open>int\<close> (no index here comes near 64 bits);
  a string is a list of runes, so that removing the last rune is \<open>butlast\<close>. A run-time
  panic (index or slice bounds out of range) is \<open>None\<close>.
\<close>

subsection \<open>Key events (atomicgo.dev/keyboard/keys)\<close>

datatype KeyCode =
    RuneKey | Space | Backspace | Up | Down | Left | Right
  | CtrlC | CtrlN | CtrlP | Enter | Tab | OtherKey nat

text \<open>\<open>String\<close> is the text that \<open>keyInfo.String()\<close> yields for the event.\<close>

record Key =
  Code :: KeyCode
  String :: string

subsection \<open>Collaborators that live outside the two source files\<close>

text \<open>One entry of \<open>fuzzy.Ranks\<close>.\<close>

record Rank =
  Source :: string
  Target :: string
  Distance :: int
  OriginalIndex :: int

text \<open>
  Everything the two \<open>Show\<close> functions take from outside is a parameter:
  \<^item> \<open>RankFindFold\<close>: \<open>fuzzy.RankFindFold\<close>;
  \<^item> \<open>sortRanks\<close>: \<open>sort.Sort\<close> on \<open>fuzzy.Ranks\<close>;
  \<^item> \<open>spareCap n\<close>: the capacity beyond its length of a slice built by \<open>n\<close> single
    \<open>append\<close>s to \<open>[]string{}\<close> (a slice expression is checked against the capacity);
  \<^item> \<open>DefaultInteractiveSelect_MaxHeight\<close>, \<open>DefaultInteractiveMultiselect_MaxHeight\<close>:
    the package-level defaults read when \<open>MaxHeight\<close> is 0;
  \<^item> \<open>areaStartFails\<close>: \<open>DefaultArea.Start\<close> returns an error;
  \<^item> \<open>listenFails\<close>: \<open>keyboard.Listen\<close> returns an error before delivering a key.
\<close>

record deps =
  RankFindFold :: "string \<Rightarrow> string list \<Rightarrow> Rank list"
  sortRanks :: "Rank list \<Rightarrow> Rank list"
  spareCap :: "nat \<Rightarrow> nat"
  DefaultInteractiveSelect_MaxHeight :: int
  DefaultInteractiveMultiselect_MaxHeight :: int
  areaStartFails :: bool
  listenFails :: bool

subsection \<open>The state shared by both printers\<close>

text \<open>
  The fields both structs declare, under the names they have in the source. Styles and
  texts are decoration and are left out; \<open>displayedOptions\<close> is only ever written, so the
  model keeps the bounds check of every slice expression assigned to it and drops the
  value. \<open>renders\<close> is a ghost counter of the calls of \<open>renderSelectMenu\<close> and
  \<open>renderFinishedMenu\<close>.
\<close>

record 'a printer =
  Options :: "'a list"
  MaxHeight :: int
  Filter :: bool
  optionsStr :: "string list"
  selectedOption :: int
  fuzzySearchString :: string
  fuzzySearchMatches :: "string list"
  displayedOptionsStart :: int
  displayedOptionsEnd :: int
  renders :: nat

text \<open>The first lines of the key handler: the closure variable \<open>maxHeight\<close>.\<close>

definition maxHeightOf :: "('a, 'z) printer_scheme \<Rightarrow> int" where
  "maxHeightOf p =
     (if MaxHeight p > int (length (fuzzySearchMatches p))
      then int (length (fuzzySearchMatches p)) else MaxHeight p)"

text \<open>
  \<open>p.fuzzySearchMatches[lo:hi]\<close> does not panic: the bounds of a slice expression are
  checked against the capacity, which is the length plus the spare capacity.
\<close>

definition sliceOK :: "deps \<Rightarrow> ('a, 'z) printer_scheme \<Rightarrow> int \<Rightarrow> int \<Rightarrow> bool" where
  "sliceOK d p lo hi \<longleftrightarrow>
     0 \<le> lo \<and> lo \<le> hi \<and>
     hi \<le> int (length (fuzzySearchMatches p) + spareCap d (length (fuzzySearchMatches p)))"

text \<open>
  The filter stage at the head of both \<open>renderSelectMenu\<close>: rank, sort when the number
  of matches differs from \<open>len(p.Options)\<close>, keep the targets.
\<close>

definition filterMatches :: "deps \<Rightarrow> ('a, 'z) printer_scheme \<Rightarrow> string list" where
  "filterMatches d p =
     (let rankedResults = RankFindFold d (fuzzySearchString p) (optionsStr p)
      in map Target (if length rankedResults \<noteq> length (Options p)
                     then sortRanks d rankedResults else rankedResults))"

text \<open>Index of the first element equal to \<open>x\<close>, or \<open>-1\<close> (\<open>findOptionByText\<close>).\<close>

fun indexFrom :: "int \<Rightarrow> string list \<Rightarrow> string \<Rightarrow> int" where
  "indexFrom i [] x = -1"
| "indexFrom i (y # ys) x = (if y = x then i else indexFrom (i + 1) ys x)"

subsection \<open>Key branches that read the same in both files\<close>

text \<open>\<open>case keys.RuneKey\<close>, inside \<open>if p.Filter\<close>.\<close>

definition typeRune :: "deps \<Rightarrow> string \<Rightarrow> ('a, 'z) printer_scheme \<Rightarrow> ('a, 'z) printer_scheme option" where
  "typeRune d s p =
     (let maxHeight = maxHeightOf p;
          p1 = p\<lparr>fuzzySearchString := fuzzySearchString p @ s,
                 selectedOption := 0,
                 displayedOptionsStart := 0,
                 displayedOptionsEnd := maxHeight\<rparr>
      in if sliceOK d p1 0 maxHeight then Some p1 else None)"

text \<open>\<open>case keys.Backspace\<close>, up to the bare call of \<open>renderSelectMenu\<close>.\<close>

definition eraseRune :: "('a, 'z) printer_scheme \<Rightarrow> ('a, 'z) printer_scheme" where
  "eraseRune p =
     (let p1 = (if length (fuzzySearchString p) > 0
                then p\<lparr>fuzzySearchString := butlast (fuzzySearchString p)\<rparr> else p)
      in if fuzzySearchString p1 = [] then p1\<lparr>fuzzySearchMatches := optionsStr p1\<rparr> else p1)"

text \<open>\<open>case keys.Backspace\<close>, between the two calls of \<open>renderSelectMenu\<close>.\<close>

definition resetWindow :: "deps \<Rightarrow> ('a, 'z) printer_scheme \<Rightarrow> ('a, 'z) printer_scheme option" where
  "resetWindow d p =
     (let maxHeight = (if int (length (fuzzySearchMatches p)) > MaxHeight p
                       then MaxHeight p else int (length (fuzzySearchMatches p)));
          p1 = p\<lparr>selectedOption := 0,
                 displayedOptionsStart := 0,
                 displayedOptionsEnd := maxHeight\<rparr>
      in if sliceOK d p1 (displayedOptionsStart p1) (displayedOptionsEnd p1)
         then Some p1 else None)"

text \<open>\<open>case keys.Up, keys.CtrlP\<close>, after the guard on an empty list, before the render.\<close>

definition moveUp :: "deps \<Rightarrow> ('a, 'z) printer_scheme \<Rightarrow> ('a, 'z) printer_scheme option" where
  "moveUp d p =
     (let maxHeight = maxHeightOf p; n = int (length (fuzzySearchMatches p)) in
      if selectedOption p > 0 then
        (let p1 = p\<lparr>selectedOption := selectedOption p - 1\<rparr> in
         if selectedOption p1 < displayedOptionsStart p1 then
           (let p2 = p1\<lparr>displayedOptionsStart := displayedOptionsStart p1 - 1,
                         displayedOptionsEnd := displayedOptionsEnd p1 - 1\<rparr>;
                p3 = (if displayedOptionsStart p2 < 0
                      then p2\<lparr>displayedOptionsStart := 0, displayedOptionsEnd := maxHeight\<rparr>
                      else p2)
            in if sliceOK d p3 (displayedOptionsStart p3) (displayedOptionsEnd p3)
               then Some p3 else None)
         else Some p1)
      else
        (let p1 = p\<lparr>selectedOption := n - 1,
                     displayedOptionsStart := n - maxHeight,
                     displayedOptionsEnd := n\<rparr>
         in if sliceOK d p1 (displayedOptionsStart p1) (displayedOptionsEnd p1)
            then Some p1 else None))"

text \<open>\<open>case keys.Down, keys.CtrlN\<close>, after the guard on an empty list, before the render.\<close>

definition moveDown :: "deps \<Rightarrow> ('a, 'z) printer_scheme \<Rightarrow> ('a, 'z) printer_scheme option" where
  "moveDown d p =
     (let maxHeight = maxHeightOf p; n = int (length (fuzzySearchMatches p)) in
      if \<not> sliceOK d p 0 maxHeight then None
      else if selectedOption p < n - 1 then
        (let p1 = p\<lparr>selectedOption := selectedOption p + 1\<rparr> in
         if selectedOption p1 \<ge> displayedOptionsEnd p1 then
           (let p2 = p1\<lparr>displayedOptionsStart := displayedOptionsStart p1 + 1,
                         displayedOptionsEnd := displayedOptionsEnd p1 + 1\<rparr>
            in if sliceOK d p2 (displayedOptionsStart p2) (displayedOptionsEnd p2)
               then Some p2 else None)
         else Some p1)
      else
        (let p1 = p\<lparr>selectedOption := 0,
                     displayedOptionsStart := 0,
                     displayedOptionsEnd := maxHeight\<rparr>
         in if sliceOK d p1 (displayedOptionsStart p1) (displayedOptionsEnd p1)
            then Some p1 else None))"

subsection \<open>The key loop\<close>

text \<open>
  What the callback given to \<open>keyboard.Listen\<close> returns: \<open>Continue\<close> is
  \<open>return false, nil\<close>, \<open>Stop\<close> is \<open>return true, nil\<close>, \<open>Cancel\<close> is \<open>cancel()\<close>
  followed by \<open>return true, nil\<close>.
\<close>

datatype 'p step = Continue 'p | Stop 'p | Cancel 'p

text \<open>
  \<open>keyboard.Listen\<close> on a finite sequence of keys: \<open>Halted p canceled rest\<close> when the
  callback asked to stop, \<open>Pending p\<close> when every key was consumed and the loop waits for
  the next one, \<open>Crashed\<close> when the callback panicked.
\<close>

datatype 'p listened = Halted 'p bool "Key list" | Pending 'p | Crashed

fun Listen :: "('p \<Rightarrow> Key \<Rightarrow> 'p step option) \<Rightarrow> 'p \<Rightarrow> Key list \<Rightarrow> 'p listened" where
  "Listen h p [] = Pending p"
| "Listen h p (k # ks) =
     (case h p k of
        None \<Rightarrow> Crashed
      | Some (Continue p') \<Rightarrow> Listen h p' ks
      | Some (Stop p') \<Rightarrow> Halted p' False ks
      | Some (Cancel p') \<Rightarrow> Halted p' True ks)"

datatype error = NoOptionsProvided | CouldNotStartArea | SpaceKeyConflict | ListenerFailed

text \<open>
  What a call of \<open>Show\<close> does on a finite sequence of keys: it returns a value (with the
  flag set by \<open>cancel()\<close>, the printer as left behind and the keys not read), returns
  an error, panics, or waits for a further key.
\<close>

datatype ('r, 'p) outcome =
    Returned 'r bool 'p "Key list"
  | Failed error 'p
  | Panicked
  | AwaitingKey 'p


subsection \<open>The select printer (\<^verbatim>\<open>interactive_generic_select_printer.go\<close>)\<close>

record 'a InteractiveGenericSelectPrinter = "'a printer" +
  DefaultOption :: "'a option"
  defaultOptionStr :: string
  result :: string

text \<open>
  \<open>NewGenericInteractiveSelect\<close>. Every field it does not set has Go's zero value;
  \<open>DefaultOption\<close> (a \<open>T\<close> never read by \<open>Show\<close>) is \<open>None\<close> until it is set.
\<close>

definition NewGenericInteractiveSelect :: "'a InteractiveGenericSelectPrinter" where
  "NewGenericInteractiveSelect =
     \<lparr>Options = [], MaxHeight = 5, Filter = True, optionsStr = [],
      selectedOption = 0, fuzzySearchString = [], fuzzySearchMatches = [],
      displayedOptionsStart = 0, displayedOptionsEnd = 0, renders = 0,
      DefaultOption = None, defaultOptionStr = [], result = []\<rparr>"

text \<open>The builder methods; \<open>str\<close> is the \<open>String()\<close> method of \<open>T\<close>.\<close>

definition WithOptions ::
  "('a \<Rightarrow> string) \<Rightarrow> 'a list \<Rightarrow> 'a InteractiveGenericSelectPrinter \<Rightarrow> 'a InteractiveGenericSelectPrinter" where
  "WithOptions str options p = p\<lparr>Options := options, optionsStr := map str options\<rparr>"

definition WithDefaultOption ::
  "('a \<Rightarrow> string) \<Rightarrow> 'a \<Rightarrow> 'a InteractiveGenericSelectPrinter \<Rightarrow> 'a InteractiveGenericSelectPrinter" where
  "WithDefaultOption str option p = p\<lparr>DefaultOption := Some option, defaultOptionStr := str option\<rparr>"

definition WithMaxHeight ::
  "int \<Rightarrow> 'a InteractiveGenericSelectPrinter \<Rightarrow> 'a InteractiveGenericSelectPrinter" where
  "WithMaxHeight maxHeight p = p\<lparr>MaxHeight := maxHeight\<rparr>"

definition WithFilter ::
  "bool \<Rightarrow> 'a InteractiveGenericSelectPrinter \<Rightarrow> 'a InteractiveGenericSelectPrinter" where
  "WithFilter b p = p\<lparr>Filter := b\<rparr>"

text \<open>
  \<open>renderSelectMenu\<close>: recomputes the filtered list as a side effect and records the
  focused entry in \<open>result\<close>; \<open>p.fuzzySearchMatches[p.selectedOption]\<close> panics out of range.
  The text it returns is decoration and is not modelled.
\<close>

definition renderSelectMenu ::
  "deps \<Rightarrow> 'a InteractiveGenericSelectPrinter \<Rightarrow> 'a InteractiveGenericSelectPrinter option" where
  "renderSelectMenu d p =
     (let p1 = p\<lparr>fuzzySearchMatches := filterMatches d p, renders := renders p + 1\<rparr> in
      if length (fuzzySearchMatches p1) \<noteq> 0 then
        (if 0 \<le> selectedOption p1 \<and> selectedOption p1 < int (length (fuzzySearchMatches p1))
         then Some (p1\<lparr>result := fuzzySearchMatches p1 ! nat (selectedOption p1)\<rparr>)
         else None)
      else Some p1)"

text \<open>\<open>renderFinishedMenu\<close> has a value receiver: it shows \<open>p.result\<close> and changes nothing.\<close>

definition renderFinishedMenu ::
  "'a InteractiveGenericSelectPrinter \<Rightarrow> 'a InteractiveGenericSelectPrinter" where
  "renderFinishedMenu p = p\<lparr>renders := renders p + 1\<rparr>"

text \<open>The callback given to \<open>keyboard.Listen\<close>, one branch of the \<open>switch\<close> per line.\<close>

definition selectKey ::
  "deps \<Rightarrow> 'a InteractiveGenericSelectPrinter \<Rightarrow> Key
   \<Rightarrow> 'a InteractiveGenericSelectPrinter step option" where
  "selectKey d p keyInfo =
     (let key = Code keyInfo in
      if key = RuneKey then
        (if Filter p then
           map_option Continue (Option.bind (typeRune d (String keyInfo) p) (renderSelectMenu d))
         else Some (Continue p))
      else if key = Space then
        map_option Continue
          (renderSelectMenu d
             (p\<lparr>fuzzySearchString := fuzzySearchString p @ '' '', selectedOption := 0\<rparr>))
      else if key = Backspace then
        map_option Continue
          (Option.bind (Option.bind (renderSelectMenu d (eraseRune p)) (resetWindow d))
             (renderSelectMenu d))
      else if key = Up \<or> key = CtrlP then
        (if length (fuzzySearchMatches p) = 0 then Some (Continue p)
         else map_option Continue (Option.bind (moveUp d p) (renderSelectMenu d)))
      else if key = Down \<or> key = CtrlN then
        (if length (fuzzySearchMatches p) = 0 then Some (Continue p)
         else map_option Continue (Option.bind (moveDown d p) (renderSelectMenu d)))
      else if key = CtrlC then Some (Cancel p)
      else if key = Enter then
        (if length (fuzzySearchMatches p) = 0 then Some (Continue p)
         else Some (Stop (renderFinishedMenu p)))
      else Some (Continue p))"

text \<open>
  The placement of the default option in \<open>Show\<close>: the loop stops at the first option whose
  text is \<open>defaultOptionStr\<close>; \<open>p.optionsStr[start:end]\<close> is a slice of a slice made with
  \<open>make([]string, len(options))\<close>, whose capacity is its length.
\<close>

definition placeDefault ::
  "int \<Rightarrow> 'a InteractiveGenericSelectPrinter \<Rightarrow> 'a InteractiveGenericSelectPrinter option" where
  "placeDefault maxHeight p =
     (if defaultOptionStr p \<noteq> [] then
        (let i = indexFrom 0 (optionsStr p) (defaultOptionStr p) in
         if i < 0 then Some p
         else
           (let p1 = p\<lparr>selectedOption := i\<rparr>;
                p2 = (if i > 0 \<and> int (length (Options p1)) > maxHeight then
                        (let e = min (i - 1 + maxHeight) (int (length (Options p1)))
                         in p1\<lparr>displayedOptionsEnd := e, displayedOptionsStart := e - maxHeight\<rparr>)
                      else p1\<lparr>displayedOptionsStart := 0, displayedOptionsEnd := maxHeight\<rparr>)
            in if 0 \<le> displayedOptionsStart p2
                  \<and> displayedOptionsStart p2 \<le> displayedOptionsEnd p2
                  \<and> displayedOptionsEnd p2 \<le> int (length (optionsStr p2))
               then Some p2 else None))
      else Some p)"

text \<open>
  \<open>Show\<close>, up to the call of \<open>keyboard.Listen\<close>: \<open>Inl\<close> is an early exit, \<open>Inr\<close> the
  printer the key loop starts from.
\<close>

definition selectStart ::
  "deps \<Rightarrow> 'a InteractiveGenericSelectPrinter
   \<Rightarrow> ('a, 'a InteractiveGenericSelectPrinter) outcome + 'a InteractiveGenericSelectPrinter" where
  "selectStart d p =
     (let p1 = p\<lparr>fuzzySearchMatches := optionsStr p\<rparr>;
          p2 = (if MaxHeight p1 = 0
                then p1\<lparr>MaxHeight := DefaultInteractiveSelect_MaxHeight d\<rparr> else p1);
          maxHeight = (if MaxHeight p2 > int (length (fuzzySearchMatches p2))
                       then int (length (fuzzySearchMatches p2)) else MaxHeight p2)
      in if length (Options p2) = 0 then Inl (Failed NoOptionsProvided p2)
         else if \<not> sliceOK d p2 0 maxHeight then Inl Panicked
         else
           (case placeDefault maxHeight
                   (p2\<lparr>displayedOptionsStart := 0, displayedOptionsEnd := maxHeight\<rparr>) of
              None \<Rightarrow> Inl Panicked
            | Some p3 \<Rightarrow>
                (case renderSelectMenu d p3 of
                   None \<Rightarrow> Inl Panicked
                 | Some p4 \<Rightarrow>
                     if areaStartFails d then Inl (Failed CouldNotStartArea p4)
                     else (case renderSelectMenu d p4 of
                             None \<Rightarrow> Inl Panicked
                           | Some p5 \<Rightarrow> Inr p5))))"

text \<open>
  \<open>Show\<close>: after the loop it returns \<open>p.Options[p.selectedOption]\<close>, which panics when the
  index is out of range.
\<close>

definition selectShow ::
  "deps \<Rightarrow> 'a InteractiveGenericSelectPrinter \<Rightarrow> Key list
   \<Rightarrow> ('a, 'a InteractiveGenericSelectPrinter) outcome" where
  "selectShow d p ks =
     (case selectStart d p of
        Inl out \<Rightarrow> out
      | Inr p0 \<Rightarrow>
          if listenFails d then Failed ListenerFailed p0
          else (case Listen (selectKey d) p0 ks of
                  Crashed \<Rightarrow> Panicked
                | Pending p' \<Rightarrow> AwaitingKey p'
                | Halted p' canceled rest \<Rightarrow>
                    if 0 \<le> selectedOption p' \<and> selectedOption p' < int (length (Options p'))
                    then Returned (Options p' ! nat (selectedOption p')) canceled p' rest
                    else Panicked))"


subsection \<open>The multiselect printer (\<^verbatim>\<open>interactive_generic_multiselect_printer.go\<close>)\<close>

record 'a GenericInteractiveMultiselectPrinter = "'a printer" +
  selectedOptions :: "int list"
  KeySelect :: KeyCode
  KeyConfirm :: KeyCode
  EnableSelectAll :: bool
  EnableClearAll :: bool

text \<open>\<open>NewGenericInteractiveMultiselect\<close>: it stores \<open>options\<close> and leaves \<open>optionsStr\<close> nil.\<close>

definition NewGenericInteractiveMultiselect ::
  "'a list \<Rightarrow> 'a GenericInteractiveMultiselectPrinter" where
  "NewGenericInteractiveMultiselect options =
     \<lparr>Options = options, MaxHeight = 5, Filter = True, optionsStr = [],
      selectedOption = 0, fuzzySearchString = [], fuzzySearchMatches = [],
      displayedOptionsStart = 0, displayedOptionsEnd = 0, renders = 0,
      selectedOptions = [], KeySelect = Enter, KeyConfirm = Tab,
      EnableSelectAll = True, EnableClearAll = True\<rparr>"

definition mWithOptions ::
  "('a \<Rightarrow> string) \<Rightarrow> 'a list \<Rightarrow> 'a GenericInteractiveMultiselectPrinter
   \<Rightarrow> 'a GenericInteractiveMultiselectPrinter" where
  "mWithOptions str options p = p\<lparr>Options := options, optionsStr := map str options\<rparr>"

definition mWithMaxHeight ::
  "int \<Rightarrow> 'a GenericInteractiveMultiselectPrinter \<Rightarrow> 'a GenericInteractiveMultiselectPrinter" where
  "mWithMaxHeight maxHeight p = p\<lparr>MaxHeight := maxHeight\<rparr>"

definition mWithFilter ::
  "bool \<Rightarrow> 'a GenericInteractiveMultiselectPrinter \<Rightarrow> 'a GenericInteractiveMultiselectPrinter" where
  "mWithFilter b p = p\<lparr>Filter := b\<rparr>"


definition WithKeyConfirm ::
  "KeyCode \<Rightarrow> 'a GenericInteractiveMultiselectPrinter \<Rightarrow> 'a GenericInteractiveMultiselectPrinter" where
  "WithKeyConfirm keyConfirm p = p\<lparr>KeyConfirm := keyConfirm\<rparr>"

text \<open>\<open>findOptionByText\<close>.\<close>

definition findOptionByText :: "'a GenericInteractiveMultiselectPrinter \<Rightarrow> string \<Rightarrow> int" where
  "findOptionByText p optionText = indexFrom 0 (optionsStr p) optionText"

text \<open>
  The loop of \<open>isSelected\<close> over \<open>p.selectedOptions\<close>: \<open>p.optionsStr[selectedOption]\<close>
  panics on an index out of range, unless an earlier index already matched.
\<close>

fun isSelectedIn :: "string list \<Rightarrow> int list \<Rightarrow> string \<Rightarrow> bool option" where
  "isSelectedIn os [] optionText = Some False"
| "isSelectedIn os (sel # rest) optionText =
     (if 0 \<le> sel \<and> sel < int (length os)
      then (if os ! nat sel = optionText then Some True
            else isSelectedIn os rest optionText)
      else None)"

definition isSelected :: "'a GenericInteractiveMultiselectPrinter \<Rightarrow> string \<Rightarrow> bool option" where
  "isSelected p optionText = isSelectedIn (optionsStr p) (selectedOptions p) optionText"

text \<open>
  The removal loop of \<open>selectOption\<close>: the first selected index whose text is
  \<open>optionText\<close> is cut out, the others keep their order.
\<close>

fun removeFirstByText :: "string list \<Rightarrow> int list \<Rightarrow> string \<Rightarrow> int list option" where
  "removeFirstByText os [] optionText = Some []"
| "removeFirstByText os (sel # rest) optionText =
     (if 0 \<le> sel \<and> sel < int (length os)
      then (if os ! nat sel = optionText then Some rest
            else map_option ((#) sel) (removeFirstByText os rest optionText))
      else None)"

text \<open>\<open>selectOption\<close>.\<close>

definition selectOption ::
  "'a GenericInteractiveMultiselectPrinter \<Rightarrow> string
   \<Rightarrow> 'a GenericInteractiveMultiselectPrinter option" where
  "selectOption p optionText =
     (case isSelected p optionText of
        None \<Rightarrow> None
      | Some True \<Rightarrow>
          map_option (\<lambda>sel. p\<lparr>selectedOptions := sel\<rparr>)
            (removeFirstByText (optionsStr p) (selectedOptions p) optionText)
      | Some False \<Rightarrow>
          Some (p\<lparr>selectedOptions := selectedOptions p @ [findOptionByText p optionText]\<rparr>))"

text \<open>\<open>getSelectedOptions\<close> and \<open>getSelectedOptionsStr\<close>: one indexed read per selected index.\<close>

fun readAll :: "'b list \<Rightarrow> int list \<Rightarrow> 'b list option" where
  "readAll xs [] = Some []"
| "readAll xs (i # is) =
     (if 0 \<le> i \<and> i < int (length xs)
      then map_option ((#) (xs ! nat i)) (readAll xs is) else None)"

definition getSelectedOptions :: "'a GenericInteractiveMultiselectPrinter \<Rightarrow> 'a list option" where
  "getSelectedOptions p = readAll (Options p) (selectedOptions p)"

definition getSelectedOptionsStr ::
  "'a GenericInteractiveMultiselectPrinter \<Rightarrow> string list option" where
  "getSelectedOptionsStr p = readAll (optionsStr p) (selectedOptions p)"

text \<open>
  The rows \<open>renderSelectMenu\<close> draws: the entries of the filtered list inside the window,
  an empty text skipped, each with its focus mark and its checkmark (\<open>isSelected\<close>).
\<close>

fun drawRows ::
  "'a GenericInteractiveMultiselectPrinter \<Rightarrow> int \<Rightarrow> string list
   \<Rightarrow> (bool \<times> bool \<times> string) list option" where
  "drawRows p i [] = Some []"
| "drawRows p i (option # rest) =
     (if i \<ge> displayedOptionsStart p \<and> i < displayedOptionsEnd p \<and> option \<noteq> [] then
        (case isSelected p option of
           None \<Rightarrow> None
         | Some checked \<Rightarrow>
             map_option ((#) (i = selectedOption p, checked, option)) (drawRows p (i + 1) rest))
      else drawRows p (i + 1) rest)"

text \<open>
  \<open>renderSelectMenu\<close>: the filtered list is recomputed as a side effect; the rows and
  the summary of the selection are computed for the panics they can raise.
\<close>

definition mRenderSelectMenu ::
  "deps \<Rightarrow> 'a GenericInteractiveMultiselectPrinter
   \<Rightarrow> 'a GenericInteractiveMultiselectPrinter option" where
  "mRenderSelectMenu d p =
     (let p1 = p\<lparr>fuzzySearchMatches := filterMatches d p, renders := renders p + 1\<rparr> in
      case drawRows p1 0 (fuzzySearchMatches p1) of
        None \<Rightarrow> None
      | Some rows \<Rightarrow>
          if length (selectedOptions p1) > 0 then
            (case getSelectedOptionsStr p1 of None \<Rightarrow> None | Some selected \<Rightarrow> Some p1)
          else Some p1)"

text \<open>\<open>renderFinishedMenu\<close>: one line per selected index, \<open>p.Options[option]\<close>.\<close>

definition mRenderFinishedMenu ::
  "'a GenericInteractiveMultiselectPrinter \<Rightarrow> 'a GenericInteractiveMultiselectPrinter option" where
  "mRenderFinishedMenu p =
     (case readAll (Options p) (selectedOptions p) of
        None \<Rightarrow> None
      | Some lines \<Rightarrow> Some (p\<lparr>renders := renders p + 1\<rparr>))"

text \<open>
  The callback given to \<open>keyboard.Listen\<close>. The \<open>switch\<close> tries \<open>p.KeyConfirm\<close> and
  \<open>p.KeySelect\<close> before the fixed keys, so a key bound to one of them never reaches the
  later branches.
\<close>

definition multiselectKey ::
  "deps \<Rightarrow> 'a GenericInteractiveMultiselectPrinter \<Rightarrow> Key
   \<Rightarrow> 'a GenericInteractiveMultiselectPrinter step option" where
  "multiselectKey d p keyInfo =
     (let key = Code keyInfo in
      if key = KeyConfirm p then
        (if length (fuzzySearchMatches p) = 0 then Some (Continue p)
         else map_option Stop (mRenderFinishedMenu p))
      else if key = KeySelect p then
        map_option Continue
          (Option.bind
             (if length (fuzzySearchMatches p) > 0 then
                (if 0 \<le> selectedOption p \<and> selectedOption p < int (length (fuzzySearchMatches p))
                 then selectOption p (fuzzySearchMatches p ! nat (selectedOption p))
                 else None)
              else Some p)
             (mRenderSelectMenu d))
      else if key = RuneKey then
        map_option Continue
          (Option.bind (if Filter p then typeRune d (String keyInfo) p else Some p)
             (mRenderSelectMenu d))
      else if key = Space then
        (if Filter p then
           map_option Continue
             (mRenderSelectMenu d
                (p\<lparr>fuzzySearchString := fuzzySearchString p @ '' '', selectedOption := 0\<rparr>))
         else Some (Continue p))
      else if key = Backspace then
        map_option Continue
          (Option.bind (Option.bind (mRenderSelectMenu d (eraseRune p)) (resetWindow d))
             (mRenderSelectMenu d))
      else if key = Left then
        (if EnableClearAll p then
           map_option Continue (mRenderSelectMenu d (p\<lparr>selectedOptions := []\<rparr>))
         else Some (Continue p))
      else if key = Right then
        (if EnableSelectAll p then
           map_option Continue
             (mRenderSelectMenu d
                (p\<lparr>selectedOptions := map int [0..<length (Options p)]\<rparr>))
         else Some (Continue p))
      else if key = Up \<or> key = CtrlP then
        (if length (fuzzySearchMatches p) = 0 then Some (Continue p)
         else map_option Continue (Option.bind (moveUp d p) (mRenderSelectMenu d)))
      else if key = Down \<or> key = CtrlN then
        (if length (fuzzySearchMatches p) = 0 then Some (Continue p)
         else map_option Continue (Option.bind (moveDown d p) (mRenderSelectMenu d)))
      else if key = CtrlC then Some (Cancel p)
      else Some (Continue p))"

text \<open>\<open>Show\<close>, up to the call of \<open>keyboard.Listen\<close>.\<close>

definition multiselectStart ::
  "deps \<Rightarrow> 'a GenericInteractiveMultiselectPrinter
   \<Rightarrow> ('a list, 'a GenericInteractiveMultiselectPrinter) outcome
      + 'a GenericInteractiveMultiselectPrinter" where
  "multiselectStart d p =
     (let p1 = p\<lparr>fuzzySearchMatches := optionsStr p\<rparr>;
          p2 = (if MaxHeight p1 = 0
                then p1\<lparr>MaxHeight := DefaultInteractiveMultiselect_MaxHeight d\<rparr> else p1);
          maxHeight = (if MaxHeight p2 > int (length (fuzzySearchMatches p2))
                       then int (length (fuzzySearchMatches p2)) else MaxHeight p2)
      in if length (Options p2) = 0 then Inl (Failed NoOptionsProvided p2)
         else if \<not> sliceOK d p2 0 maxHeight then Inl Panicked
         else
           (case mRenderSelectMenu d
                   (p2\<lparr>displayedOptionsStart := 0, displayedOptionsEnd := maxHeight\<rparr>) of
              None \<Rightarrow> Inl Panicked
            | Some p3 \<Rightarrow>
                if areaStartFails d then Inl (Failed CouldNotStartArea p3)
                else if Filter p3 \<and> (KeyConfirm p3 = Space \<or> KeySelect p3 = Space)
                then Inl (Failed SpaceKeyConflict p3)
                else (case mRenderSelectMenu d p3 of
                        None \<Rightarrow> Inl Panicked
                      | Some p4 \<Rightarrow> Inr p4)))"

text \<open>\<open>Show\<close>: after the loop it returns \<open>p.getSelectedOptions()\<close>.\<close>

definition multiselectShow ::
  "deps \<Rightarrow> 'a GenericInteractiveMultiselectPrinter \<Rightarrow> Key list
   \<Rightarrow> ('a list, 'a GenericInteractiveMultiselectPrinter) outcome" where
  "multiselectShow d p ks =
     (case multiselectStart d p of
        Inl out \<Rightarrow> out
      | Inr p0 \<Rightarrow>
          if listenFails d then Failed ListenerFailed p0
          else (case Listen (multiselectKey d) p0 ks of
                  Crashed \<Rightarrow> Panicked
                | Pending p' \<Rightarrow> AwaitingKey p'
                | Halted p' canceled rest \<Rightarrow>
                    (case getSelectedOptions p' of
                       None \<Rightarrow> Panicked
                     | Some chosen \<Rightarrow> Returned chosen canceled p' rest)))"


subsection \<open>A concrete instance of the collaborators\<close>

text \<open>
  Modelled from the spec: the fuzzy ranking capability (package \<open>fuzzy\<close>), the sort of its
  ranks, the growth of a slice under \<open>append\<close> and the package-level default printers
  (\<open>DefaultInteractiveSelect\<close>, \<open>DefaultInteractiveMultiselect\<close>) are not in the two
  source files. The spec gives the ranking as \<open>rank(query, candidates) \<rightarrow> ordered subset\<close>,
  ranked matches, identity on the empty query, and 5 as the default number of rows. The
  instance below is used at concrete inputs only: a candidate matches when the query,
  with letters folded to lower case, is a subsequence of it; the rank is the edit
  distance; the sort is by distance and stable; the capacity doubles when an \<open>append\<close>
  overflows it.
\<close>

definition foldRune :: "char \<Rightarrow> char" where
  "foldRune c =
     (if (65::nat) \<le> of_char c \<and> of_char c \<le> (90::nat)
      then char_of (of_char c + (32::nat)) else c)"

fun matchRunes :: "string \<Rightarrow> string \<Rightarrow> bool" where
  "matchRunes [] target = True"
| "matchRunes (r1 # source) [] = False"
| "matchRunes (r1 # source) (r2 # target) =
     (if r1 = r2 then matchRunes source target else matchRunes (r1 # source) target)"

fun LevenshteinDistance :: "string \<Rightarrow> string \<Rightarrow> nat" where
  "LevenshteinDistance [] t = length t"
| "LevenshteinDistance (a # s) [] = Suc (length s)"
| "LevenshteinDistance (a # s) (b # t) =
     min (min (LevenshteinDistance s (b # t) + 1) (LevenshteinDistance (a # s) t + 1))
         (LevenshteinDistance s t + (if a = b then 0 else 1))"

fun rankFindFrom :: "int \<Rightarrow> string \<Rightarrow> string list \<Rightarrow> Rank list" where
  "rankFindFrom i source [] = []"
| "rankFindFrom i source (target # targets) =
     (if matchRunes (map foldRune source) (map foldRune target)
      then \<lparr>Source = source, Target = target,
            Distance = int (LevenshteinDistance source target), OriginalIndex = i\<rparr>
           # rankFindFrom (i + 1) source targets
      else rankFindFrom (i + 1) source targets)"

fun capAfter :: "nat \<Rightarrow> nat" where
  "capAfter 0 = 0"
| "capAfter (Suc n) =
     (if Suc n \<le> capAfter n then capAfter n
      else if capAfter n = 0 then 1 else 2 * capAfter n)"

definition stdDeps :: deps where
  "stdDeps =
     \<lparr>RankFindFold = rankFindFrom 0,
      sortRanks = sort_key Distance,
      spareCap = (\<lambda>n. capAfter n - n),
      DefaultInteractiveSelect_MaxHeight = 5,
      DefaultInteractiveMultiselect_MaxHeight = 5,
      areaStartFails = False,
      listenFails = False\<rparr>"

text \<open>Key events for concrete runs.\<close>

definition rune :: "string \<Rightarrow> Key" where
  "rune s = \<lparr>Code = RuneKey, String = s\<rparr>"

definition press :: "KeyCode \<Rightarrow> Key" where
  "press c = \<lparr>Code = c, String = []\<rparr>"


text \<open>What an outcome carries: the value returned, and the printer as it was left.\<close>

definition returned :: "('r, 'p) outcome \<Rightarrow> 'r option" where
  "returned out = (case out of Returned r c p ks \<Rightarrow> Some r | _ \<Rightarrow> None)"

definition printerOf :: "('r, 'p) outcome \<Rightarrow> 'p option" where
  "printerOf out =
     (case out of
        Returned r c p ks \<Rightarrow> Some p
      | Failed e p \<Rightarrow> Some p
      | AwaitingKey p \<Rightarrow> Some p
      | Panicked \<Rightarrow> None)"

text \<open>
  The containment the viewport is meant to keep over a non-empty filtered list:
  \<open>0 \<le> start \<le> focus < end \<le> len(filtered)\<close> and \<open>end - start \<le> MaxHeight\<close>.
\<close>

definition windowOK :: "('a, 'z) printer_scheme \<Rightarrow> bool" where
  "windowOK p \<longleftrightarrow>
     0 \<le> displayedOptionsStart p \<and>
     displayedOptionsStart p \<le> selectedOption p \<and>
     selectedOption p < displayedOptionsEnd p \<and>
     displayedOptionsEnd p \<le> int (length (fuzzySearchMatches p)) \<and>
     displayedOptionsEnd p - displayedOptionsStart p \<le> MaxHeight p"

text \<open>The focus, the window and the filtered list of a printer, for concrete runs.\<close>

definition view :: "('a, 'z) printer_scheme \<Rightarrow> int \<times> int \<times> int \<times> string list" where
  "view p =
     (selectedOption p, displayedOptionsStart p, displayedOptionsEnd p, fuzzySearchMatches p)"

text \<open>Printers for concrete runs; \<open>String()\<close> of an option is the option itself.\<close>

definition greek :: "string list" where
  "greek = [''alpha'', ''beta'', ''gamma'', ''delta'', ''epsilon'']"

definition spaced :: "string list" where
  "spaced = [''a b'', ''c d'', ''e'', ''f'', ''g'']"

definition selectOf :: "int \<Rightarrow> string list \<Rightarrow> string InteractiveGenericSelectPrinter" where
  "selectOf h options = WithMaxHeight h (WithOptions (\<lambda>s. s) options NewGenericInteractiveSelect)"

definition multiselectOf :: "int \<Rightarrow> string list \<Rightarrow> string GenericInteractiveMultiselectPrinter" where
  "multiselectOf h options =
     mWithMaxHeight h (mWithOptions (\<lambda>s. s) options (NewGenericInteractiveMultiselect options))"

subsection \<open>Predicates and states used by the properties\<close>

text \<open>
  Every index of the list is within the bounds of \<open>xs\<close>.
\<close>

definition validIn :: "'b list \<Rightarrow> int list \<Rightarrow> bool" where
  "validIn xs is \<longleftrightarrow> list_all (\<lambda>i. 0 \<le> i \<and> i < int (length xs)) is"

text \<open>
  The key reaches one of the three branches of the multiselect \<open>switch\<close> that edit the query:
  its code is a rune, space or backspace, and the configuration binds it neither to confirm
  nor to select (those two branches come first).
\<close>

definition editsQuery :: "'a GenericInteractiveMultiselectPrinter \<Rightarrow> Key \<Rightarrow> bool" where
  "editsQuery p k \<longleftrightarrow>
     (Code k = RuneKey \<or> Code k = Space \<or> Code k = Backspace)
     \<and> Code k \<noteq> KeyConfirm p \<and> Code k \<noteq> KeySelect p"

text \<open>
  What holds of a multiselect printer that \<open>renderSelectMenu\<close> has just returned: the
  filtered list is the filter of the current query, and every selected index can be read in
  \<open>optionsStr\<close>.
\<close>

definition rendered :: "deps \<Rightarrow> 'a GenericInteractiveMultiselectPrinter \<Rightarrow> bool" where
  "rendered d p \<longleftrightarrow>
     fuzzySearchMatches p = filterMatches d p \<and> validIn (optionsStr p) (selectedOptions p)"

text \<open>
  The four keys of the up and down branches.
\<close>

definition navigates :: "KeyCode \<Rightarrow> bool" where
  "navigates c \<longleftrightarrow> c = Up \<or> c = CtrlP \<or> c = Down \<or> c = CtrlN"

text \<open>
  A printer with a new focus and a new window.
\<close>

definition moved :: "('a, 'z) printer_scheme \<Rightarrow> int \<Rightarrow> int \<Rightarrow> int \<Rightarrow> ('a, 'z) printer_scheme" where
  "moved p f s e = p\<lparr>selectedOption := f, displayedOptionsStart := s, displayedOptionsEnd := e\<rparr>"

text \<open>
  The selection state of the multiselect engine in the spec's words (section 4.3), to be
  compared with what the key handler does. The toggle: a text already chosen loses its
  first matching candidate index, the other indices keeping their order; a text not yet
  chosen has its candidate index added at the end.
\<close>

definition specToggle :: "string list \<Rightarrow> int list \<Rightarrow> string \<Rightarrow> int list" where
  "specToggle os chosen t =
     (if list_ex (\<lambda>i. os ! nat i = t) chosen
      then takeWhile (\<lambda>i. os ! nat i \<noteq> t) chosen @ tl (dropWhile (\<lambda>i. os ! nat i \<noteq> t) chosen)
      else chosen @ [indexFrom 0 os t])"

text \<open>
  The selection after one key, in the spec's words: the select key over a non-empty
  filtered list toggles the focused entry, the left key (if enabled) clears the selection,
  the right key (if enabled) selects every candidate in store order, and every other key,
  the confirm key included, leaves the selection as it is.
\<close>

definition specSelectionAfter :: "'a GenericInteractiveMultiselectPrinter \<Rightarrow> Key \<Rightarrow> int list" where
  "specSelectionAfter q j =
     (if Code j = KeyConfirm q then selectedOptions q
      else if Code j = KeySelect q then
        (if fuzzySearchMatches q = [] then selectedOptions q
         else specToggle (optionsStr q) (selectedOptions q)
                (fuzzySearchMatches q ! nat (selectedOption q)))
      else if Code j = Left \<and> EnableClearAll q then []
      else if Code j = Right \<and> EnableSelectAll q then map int [0..<length (Options q)]
      else selectedOptions q)"

text \<open>
  The select printer over \<open>greek\<close> with three rows, in a given state.
\<close>

definition greekSelect ::
  "int \<Rightarrow> int \<Rightarrow> int \<Rightarrow> string \<Rightarrow> string list \<Rightarrow> string \<Rightarrow> nat
   \<Rightarrow> string InteractiveGenericSelectPrinter" where
  "greekSelect focus lo hi query matches res n =
     \<lparr>Options = greek, MaxHeight = 3, Filter = True, optionsStr = greek,
      selectedOption = focus, fuzzySearchString = query, fuzzySearchMatches = matches,
      displayedOptionsStart = lo, displayedOptionsEnd = hi, renders = n,
      DefaultOption = None, defaultOptionStr = [], result = res\<rparr>"

text \<open>
  The multiselect printer over \<open>greek\<close> with three rows and the default keys, in a given
  state.
\<close>

definition greekMultiselect ::
  "int \<Rightarrow> int \<Rightarrow> int \<Rightarrow> string \<Rightarrow> string list \<Rightarrow> int list \<Rightarrow> nat
   \<Rightarrow> string GenericInteractiveMultiselectPrinter" where
  "greekMultiselect focus lo hi query matches chosen n =
     \<lparr>Options = greek, MaxHeight = 3, Filter = True, optionsStr = greek,
      selectedOption = focus, fuzzySearchString = query, fuzzySearchMatches = matches,
      displayedOptionsStart = lo, displayedOptionsEnd = hi, renders = n,
      selectedOptions = chosen, KeySelect = Enter, KeyConfirm = Tab,
      EnableSelectAll = True, EnableClearAll = True\<rparr>"

section \<open>Supporting lemmas\<close>

subsection \<open>Reads of the selection\<close>

lemma readAll_valid: "validIn xs is \<Longrightarrow> readAll xs is = Some (map (\<lambda>i. xs ! nat i) is)"
  by (induction "is") (simp_all add: validIn_def)

lemma readAll_Some_valid: "readAll xs is = Some r \<Longrightarrow> validIn xs is"
  by (induction "is" arbitrary: r) (auto simp: validIn_def split: if_splits)

lemma isSelectedIn_valid:
  "validIn os is \<Longrightarrow> isSelectedIn os is t = Some (t \<in> (\<lambda>i. os ! nat i) ` set is)"
  by (induction "is") (auto simp: validIn_def)

lemma drawRows_valid:
  "validIn (optionsStr p) (selectedOptions p) \<Longrightarrow> \<exists>rows. drawRows p i ms = Some rows"
proof (induction ms arbitrary: i)
  case Nil
  then show ?case by simp
next
  case (Cons m ms)
  from Cons.IH [OF Cons.prems, of "i + 1"] obtain rows where "drawRows p (i + 1) ms = Some rows" ..
  with Cons.prems show ?case
    by (simp add: isSelected_def isSelectedIn_valid)
qed

lemma removeFirstByText_cut:
  "isSelectedIn os is t = Some True \<Longrightarrow>
   \<exists>xs y ys. is = xs @ y # ys \<and> removeFirstByText os is t = Some (xs @ ys)"
proof (induction "is")
  case Nil
  then show ?case by simp
next
  case (Cons i "is")
  show ?case
  proof (cases "0 \<le> i \<and> i < int (length os)")
    case False
    with Cons.prems show ?thesis by simp
  next
    case inr: True
    show ?thesis
    proof (cases "os ! nat i = t")
      case True
      with inr have "removeFirstByText os (i # is) t = Some ([] @ is)" by simp
      then show ?thesis by blast
    next
      case False
      with inr Cons.prems have "isSelectedIn os is t = Some True" by simp
      from Cons.IH [OF this] obtain xs y ys
        where "is = xs @ y # ys" "removeFirstByText os is t = Some (xs @ ys)" by blast
      with inr False have "i # is = (i # xs) @ y # ys"
        "removeFirstByText os (i # is) t = Some ((i # xs) @ ys)" by simp_all
      then show ?thesis by blast
    qed
  qed
qed

subsection \<open>The filter stage and the renders\<close>

lemma filterMatches_cong:
  "fuzzySearchString p = fuzzySearchString q \<Longrightarrow> optionsStr p = optionsStr q \<Longrightarrow>
   length (Options p) = length (Options q) \<Longrightarrow> filterMatches d p = filterMatches d q"
  by (simp add: filterMatches_def)

lemma mRenderSelectMenu_valid:
  assumes "validIn (optionsStr p) (selectedOptions p)"
  shows "mRenderSelectMenu d p
           = Some (p\<lparr>fuzzySearchMatches := filterMatches d p, renders := renders p + 1\<rparr>)"
proof -
  let ?p1 = "p\<lparr>fuzzySearchMatches := filterMatches d p, renders := renders p + 1\<rparr>"
  have v: "validIn (optionsStr ?p1) (selectedOptions ?p1)" using assms by simp
  obtain rows where r: "drawRows ?p1 0 (fuzzySearchMatches ?p1) = Some rows"
    using drawRows_valid [OF v] by blast
  have g: "getSelectedOptionsStr ?p1 = Some (map (\<lambda>i. optionsStr p ! nat i) (selectedOptions p))"
    using readAll_valid [OF assms] by (simp add: getSelectedOptionsStr_def)
  show ?thesis
    unfolding mRenderSelectMenu_def Let_def using r g by simp
qed

lemma mRenderSelectMenu_rendered:
  assumes "mRenderSelectMenu d q = Some p"
  shows "rendered d p"
proof -
  let ?p1 = "q\<lparr>fuzzySearchMatches := filterMatches d q, renders := renders q + 1\<rparr>"
  from assms have p: "p = ?p1"
    by (auto simp: mRenderSelectMenu_def Let_def split: option.splits if_splits)
  have f: "filterMatches d ?p1 = filterMatches d q" by (rule filterMatches_cong) simp_all
  have "validIn (optionsStr q) (selectedOptions q)"
  proof (cases "selectedOptions q = []")
    case True
    then show ?thesis by (simp add: validIn_def)
  next
    case False
    with assms obtain sel where "getSelectedOptionsStr ?p1 = Some sel"
      by (auto simp: mRenderSelectMenu_def Let_def split: option.splits if_splits)
    then show ?thesis using readAll_Some_valid [of "optionsStr q" "selectedOptions q" sel]
      by (simp add: getSelectedOptionsStr_def)
  qed
  with p f show ?thesis by (simp add: rendered_def)
qed

lemma select_render_out:
  assumes "renderSelectMenu d q = Some p"
  shows "fuzzySearchMatches p = filterMatches d q \<and> selectedOption p = selectedOption q
       \<and> displayedOptionsStart p = displayedOptionsStart q
       \<and> displayedOptionsEnd p = displayedOptionsEnd q \<and> MaxHeight p = MaxHeight q
       \<and> fuzzySearchString p = fuzzySearchString q \<and> optionsStr p = optionsStr q
       \<and> Options p = Options q"
  using assms by (auto simp: renderSelectMenu_def Let_def split: if_splits)

lemma multiselect_render_out:
  assumes "mRenderSelectMenu d q = Some p"
  shows "fuzzySearchMatches p = filterMatches d q \<and> selectedOption p = selectedOption q
       \<and> displayedOptionsStart p = displayedOptionsStart q
       \<and> displayedOptionsEnd p = displayedOptionsEnd q \<and> MaxHeight p = MaxHeight q
       \<and> fuzzySearchString p = fuzzySearchString q \<and> optionsStr p = optionsStr q
       \<and> Options p = Options q \<and> Filter p = Filter q"
  using assms by (auto simp: mRenderSelectMenu_def Let_def split: if_splits option.splits)

lemma select_render_window:
  assumes "windowOK p" "filterMatches d p = fuzzySearchMatches p"
  shows "\<exists>p'. renderSelectMenu d p = Some p' \<and> windowOK p' \<and> MaxHeight p' = MaxHeight p
           \<and> fuzzySearchMatches p' = fuzzySearchMatches p \<and> filterMatches d p' = filterMatches d p"
proof -
  let ?p' = "p\<lparr>renders := renders p + 1,
               result := fuzzySearchMatches p ! nat (selectedOption p)\<rparr>"
  from assms(1) have "0 \<le> selectedOption p" "selectedOption p < int (length (fuzzySearchMatches p))"
    "fuzzySearchMatches p \<noteq> []"
    by (auto simp: windowOK_def)
  with assms(2) have "renderSelectMenu d p = Some ?p'"
    by (simp add: renderSelectMenu_def Let_def)
  moreover have "windowOK ?p'" using assms(1) by (simp add: windowOK_def)
  moreover have "filterMatches d ?p' = filterMatches d p" by (rule filterMatches_cong) simp_all
  ultimately show ?thesis by simp
qed

lemma multiselect_render_window:
  assumes "windowOK p" "rendered d p"
  shows "\<exists>p'. mRenderSelectMenu d p = Some p' \<and> windowOK p' \<and> MaxHeight p' = MaxHeight p
           \<and> rendered d p'"
proof -
  let ?p' = "p\<lparr>renders := renders p + 1\<rparr>"
  from assms(2) have "mRenderSelectMenu d p = Some ?p'"
    using mRenderSelectMenu_valid [of p d] by (simp add: rendered_def)
  moreover have "windowOK ?p'" using assms(1) by (simp add: windowOK_def)
  moreover have "rendered d ?p'" using calculation(1) by (rule mRenderSelectMenu_rendered)
  ultimately show ?thesis by simp
qed

subsection \<open>The branches that edit the query\<close>

lemma typeRune_Some:
  "0 \<le> MaxHeight p \<Longrightarrow>
   typeRune d s p = Some (p\<lparr>fuzzySearchString := fuzzySearchString p @ s,
                            selectedOption := 0, displayedOptionsStart := 0,
                            displayedOptionsEnd := maxHeightOf p\<rparr>)"
  by (simp add: typeRune_def sliceOK_def maxHeightOf_def Let_def)

lemma resetWindow_Some:
  "0 \<le> MaxHeight p \<Longrightarrow>
   resetWindow d p = Some (p\<lparr>selectedOption := 0, displayedOptionsStart := 0,
                             displayedOptionsEnd := min (MaxHeight p) (int (length (fuzzySearchMatches p)))\<rparr>)"
  by (simp add: resetWindow_def sliceOK_def Let_def min_def)

lemma resetWindow_out:
  assumes "resetWindow d q = Some p"
  shows "selectedOption p = 0 \<and> displayedOptionsStart p = 0
       \<and> displayedOptionsEnd p = min (MaxHeight q) (int (length (fuzzySearchMatches q)))
       \<and> MaxHeight p = MaxHeight q \<and> fuzzySearchMatches p = fuzzySearchMatches q
       \<and> fuzzySearchString p = fuzzySearchString q \<and> optionsStr p = optionsStr q
       \<and> Options p = Options q"
  using assms by (auto simp: resetWindow_def Let_def min_def split: if_splits)

lemma eraseRune_fields [simp]:
  "optionsStr (eraseRune p) = optionsStr p"
  "MaxHeight (eraseRune p) = MaxHeight p"
  "Options (eraseRune p) = Options p"
  "Filter (eraseRune p) = Filter p"
  "selectedOption (eraseRune p) = selectedOption p"
  "displayedOptionsStart (eraseRune p) = displayedOptionsStart p"
  "displayedOptionsEnd (eraseRune p) = displayedOptionsEnd p"
  "renders (eraseRune p) = renders p"
  "printer.more (eraseRune p) = printer.more p"
  by (simp_all add: eraseRune_def Let_def)

lemma eraseRune_multi [simp]:
  "selectedOptions (eraseRune p) = selectedOptions p"
  "KeySelect (eraseRune p) = KeySelect p"
  "KeyConfirm (eraseRune p) = KeyConfirm p"
  "EnableSelectAll (eraseRune p) = EnableSelectAll p"
  "EnableClearAll (eraseRune p) = EnableClearAll p"
  by (simp_all add: eraseRune_def Let_def)

lemma eraseRune_empty:
  "fuzzySearchString p = [] \<Longrightarrow> eraseRune p = p\<lparr>fuzzySearchMatches := optionsStr p\<rparr>"
  by (simp add: eraseRune_def)

lemma swap_MaxHeight_fuzzySearchMatches:
  "q\<lparr>MaxHeight := b, fuzzySearchMatches := a\<rparr> = q\<lparr>fuzzySearchMatches := a, MaxHeight := b\<rparr>"
  by simp

lemma multiselect_query_step:
  assumes "editsQuery p k" "0 \<le> MaxHeight p" "validIn (optionsStr p) (selectedOptions p)"
  shows "\<exists>p'. multiselectKey d p k = Some (Continue p')
           \<and> selectedOptions p' = selectedOptions p \<and> optionsStr p' = optionsStr p
           \<and> MaxHeight p' = MaxHeight p \<and> KeyConfirm p' = KeyConfirm p
           \<and> KeySelect p' = KeySelect p"
proof -
  from assms(1) have nc: "Code k \<noteq> KeyConfirm p" "Code k \<noteq> KeySelect p"
    and c: "Code k = RuneKey \<or> Code k = Space \<or> Code k = Backspace"
    by (simp_all add: editsQuery_def)
  from c show ?thesis
  proof (elim disjE)
    assume "Code k = RuneKey"
    then show ?thesis using nc assms(2,3)
      by (simp add: multiselectKey_def typeRune_Some mRenderSelectMenu_valid)
  next
    assume "Code k = Space"
    then show ?thesis using nc assms(2,3)
      by (simp add: multiselectKey_def mRenderSelectMenu_valid)
  next
    assume "Code k = Backspace"
    then show ?thesis using nc assms(2,3)
      by (simp add: multiselectKey_def mRenderSelectMenu_valid resetWindow_Some)
  qed
qed

lemma select_backspace_resets_window:
  assumes "Code k = Backspace" "selectKey d p k = Some (Continue p')"
  shows "selectedOption p' = 0 \<and> displayedOptionsStart p' = 0
       \<and> displayedOptionsEnd p' = min (MaxHeight p') (int (length (fuzzySearchMatches p')))"
proof -
  from assms obtain r1 w where r1: "renderSelectMenu d (eraseRune p) = Some r1"
    and w: "resetWindow d r1 = Some w" and r2: "renderSelectMenu d w = Some p'"
    by (auto simp: selectKey_def bind_eq_Some_conv)
  note a = select_render_out [OF r1] and b = resetWindow_out [OF w] and c = select_render_out [OF r2]
  have "filterMatches d w = filterMatches d (eraseRune p)"
    by (rule filterMatches_cong) (simp_all add: a b)
  with a b c show ?thesis by simp
qed

lemma multiselect_backspace_resets_window:
  assumes "Code k = Backspace" "KeyConfirm p \<noteq> Backspace" "KeySelect p \<noteq> Backspace"
    and "multiselectKey d p k = Some (Continue p')"
  shows "selectedOption p' = 0 \<and> displayedOptionsStart p' = 0
       \<and> displayedOptionsEnd p' = min (MaxHeight p') (int (length (fuzzySearchMatches p')))"
proof -
  from assms obtain r1 w where r1: "mRenderSelectMenu d (eraseRune p) = Some r1"
    and w: "resetWindow d r1 = Some w" and r2: "mRenderSelectMenu d w = Some p'"
    by (auto simp: multiselectKey_def bind_eq_Some_conv)
  note a = multiselect_render_out [OF r1] and b = resetWindow_out [OF w]
    and c = multiselect_render_out [OF r2]
  have "filterMatches d w = filterMatches d (eraseRune p)"
    by (rule filterMatches_cong) (simp_all add: a b)
  with a b c show ?thesis by simp
qed

subsection \<open>The loop\<close>

lemma Listen_append:
  "Listen h p (ks @ ks') =
     (case Listen h p ks of
        Pending p1 \<Rightarrow> Listen h p1 ks'
      | Halted p1 c rest \<Rightarrow> Halted p1 c (rest @ ks')
      | Crashed \<Rightarrow> Crashed)"
  by (induction ks arbitrary: p) (auto split: option.splits step.splits)

lemma multiselectKey_rendered:
  assumes "rendered d p" "multiselectKey d p k = Some (Continue p')"
  shows "rendered d p'"
proof -
  from assms(2) have "p' = p \<or> (\<exists>q. mRenderSelectMenu d q = Some p')"
    unfolding multiselectKey_def Let_def
    by (auto split: if_splits simp: bind_eq_Some_conv)
  with assms(1) show ?thesis using mRenderSelectMenu_rendered by blast
qed

lemma multiselectStart_rendered:
  assumes "multiselectStart d p = Inr p0"
  shows "rendered d p0"
proof -
  from assms have "\<exists>q. mRenderSelectMenu d q = Some p0"
    unfolding multiselectStart_def Let_def
    by (auto split: if_splits option.splits)
  then show ?thesis using mRenderSelectMenu_rendered by blast
qed

lemma Listen_rendered:
  "rendered d p \<Longrightarrow> Listen (multiselectKey d) p ks = Pending p' \<Longrightarrow> rendered d p'"
proof (induction ks arbitrary: p)
  case Nil
  then show ?case by simp
next
  case (Cons k ks)
  from Cons.prems(2) obtain p1 where s: "multiselectKey d p k = Some (Continue p1)"
    and r: "Listen (multiselectKey d) p1 ks = Pending p'"
    by (auto split: option.splits step.splits)
  from multiselectKey_rendered [OF Cons.prems(1) s] have "rendered d p1" .
  from Cons.IH [OF this r] show ?case .
qed

lemma selectStart_exits:
  "selectStart d p = Inl out \<Longrightarrow> out = Panicked \<or> (\<exists>e q. out = Failed e q)"
  unfolding selectStart_def Let_def
  by (auto split: if_splits option.splits)

lemma selectShow_returns_option_at_focus:
  assumes "selectShow d p ks = Returned x c p' rest"
  shows "x = Options p' ! nat (selectedOption p')"
  using assms selectStart_exits [of d p]
  by (auto simp: selectShow_def split: sum.splits if_splits listened.splits)

subsection \<open>The selection along a run\<close>

lemma isSelectedIn_list_ex:
  "isSelectedIn os chosen t = Some b \<Longrightarrow> b = list_ex (\<lambda>i. os ! nat i = t) chosen"
  by (induction chosen) (auto split: if_splits)

lemma removeFirstByText_takeWhile:
  "isSelectedIn os chosen t = Some True \<Longrightarrow>
   removeFirstByText os chosen t
     = Some (takeWhile (\<lambda>i. os ! nat i \<noteq> t) chosen @ tl (dropWhile (\<lambda>i. os ! nat i \<noteq> t) chosen))"
  by (induction chosen) (auto split: if_splits)

lemma selectOption_specToggle:
  assumes "selectOption q t = Some q'"
  shows "q' = q\<lparr>selectedOptions := specToggle (optionsStr q) (selectedOptions q) t\<rparr>"
proof (cases "isSelected q t")
  case None
  with assms show ?thesis by (simp add: selectOption_def)
next
  case (Some b)
  then have i: "isSelectedIn (optionsStr q) (selectedOptions q) t = Some b"
    by (simp add: isSelected_def)
  show ?thesis
  proof (cases b)
    case True
    with i assms Some removeFirstByText_takeWhile [of "optionsStr q" "selectedOptions q" t]
      isSelectedIn_list_ex [OF i]
    show ?thesis by (auto simp: selectOption_def specToggle_def)
  next
    case False
    with i assms Some isSelectedIn_list_ex [OF i]
    show ?thesis by (auto simp: selectOption_def specToggle_def findOptionByText_def)
  qed
qed

lemma mRenderSelectMenu_frame:
  assumes "mRenderSelectMenu d q = Some p"
  shows "p = q\<lparr>fuzzySearchMatches := filterMatches d q, renders := renders q + 1\<rparr>"
  using assms by (auto simp: mRenderSelectMenu_def Let_def split: if_splits option.splits)

lemma moves_keep_selection:
  "moveUp d (q :: 'a GenericInteractiveMultiselectPrinter) = Some p \<Longrightarrow>
     Options p = Options q \<and> optionsStr p = optionsStr q \<and> selectedOptions p = selectedOptions q"
  "moveDown d (q :: 'a GenericInteractiveMultiselectPrinter) = Some p \<Longrightarrow>
     Options p = Options q \<and> optionsStr p = optionsStr q \<and> selectedOptions p = selectedOptions q"
  "typeRune d s (q :: 'a GenericInteractiveMultiselectPrinter) = Some p \<Longrightarrow>
     Options p = Options q \<and> optionsStr p = optionsStr q \<and> selectedOptions p = selectedOptions q"
  "resetWindow d (q :: 'a GenericInteractiveMultiselectPrinter) = Some p \<Longrightarrow>
     Options p = Options q \<and> optionsStr p = optionsStr q \<and> selectedOptions p = selectedOptions q"
  by (auto simp: moveUp_def moveDown_def typeRune_def resetWindow_def Let_def split: if_splits)

lemma multiselectKey_selection:
  assumes "multiselectKey d q j = Some (Continue q')"
  shows "Options q' = Options q \<and> optionsStr q' = optionsStr q
       \<and> selectedOptions q' = specSelectionAfter q j"
proof -
  consider (confirm) "Code j = KeyConfirm q"
    | (select) "Code j \<noteq> KeyConfirm q" "Code j = KeySelect q"
    | (other) "Code j \<noteq> KeyConfirm q" "Code j \<noteq> KeySelect q"
    by blast
  then show ?thesis
  proof cases
    case confirm
    with assms show ?thesis
      by (auto simp: multiselectKey_def specSelectionAfter_def split: if_splits)
  next
    case select
    show ?thesis
    proof (cases "fuzzySearchMatches q = []")
      case True
      with select assms show ?thesis
        by (auto simp: multiselectKey_def specSelectionAfter_def dest!: mRenderSelectMenu_frame)
    next
      case False
      with select assms obtain q1
        where t: "selectOption q (fuzzySearchMatches q ! nat (selectedOption q)) = Some q1"
          and r: "mRenderSelectMenu d q1 = Some q'"
        by (auto simp: multiselectKey_def bind_eq_Some_conv split: if_splits)
      from selectOption_specToggle [OF t] mRenderSelectMenu_frame [OF r] select False
      show ?thesis by (simp add: specSelectionAfter_def)
    qed
  next
    case other
    with assms show ?thesis
      unfolding multiselectKey_def Let_def specSelectionAfter_def
      by (auto split: if_splits simp: bind_eq_Some_conv
          dest!: mRenderSelectMenu_frame moves_keep_selection)
  qed
qed

lemma multiselectKey_Options:
  assumes "multiselectKey d q j = Some s" "s = Continue q' \<or> s = Stop q' \<or> s = Cancel q'"
  shows "Options q' = Options q \<and> optionsStr q' = optionsStr q"
proof (cases s)
  case (Continue x)
  with assms multiselectKey_selection [of d q j q'] show ?thesis by auto
next
  case (Stop x)
  with assms show ?thesis
    by (auto simp: multiselectKey_def mRenderFinishedMenu_def Let_def bind_eq_Some_conv
        split: if_splits option.splits)
next
  case (Cancel x)
  with assms show ?thesis
    by (auto simp: multiselectKey_def Let_def bind_eq_Some_conv split: if_splits)
qed

lemma Listen_keeps_Options:
  "Listen (multiselectKey d) p ks = Pending p' \<Longrightarrow>
   Options p' = Options p \<and> optionsStr p' = optionsStr p"
proof (induction ks arbitrary: p)
  case Nil
  then show ?case by simp
next
  case (Cons k ks)
  from Cons.prems obtain p1 where s: "multiselectKey d p k = Some (Continue p1)"
    and r: "Listen (multiselectKey d) p1 ks = Pending p'"
    by (auto split: option.splits step.splits)
  from multiselectKey_selection [OF s] Cons.IH [OF r] show ?case by simp
qed

lemma multiselectStart_keeps:
  assumes "multiselectStart d p = Inr p0"
  shows "Options p0 = Options p \<and> optionsStr p0 = optionsStr p
       \<and> selectedOptions p0 = selectedOptions p"
  using assms unfolding multiselectStart_def Let_def
  by (auto split: if_splits option.splits dest!: mRenderSelectMenu_frame)

subsection \<open>Navigation keeps the window around the focus\<close>

lemma moveUp_window:
  assumes "windowOK p" "1 \<le> MaxHeight p"
  shows "\<exists>f s e. moveUp d p = Some (moved p f s e) \<and> windowOK (moved p f s e)"
proof -
  let ?n = "int (length (fuzzySearchMatches p))"
  let ?h = "maxHeightOf p"
  from assms have n: "1 \<le> ?n" and h: "1 \<le> ?h" "?h \<le> ?n" "?h \<le> MaxHeight p"
    by (auto simp: windowOK_def maxHeightOf_def)
  consider (wrap) "selectedOption p \<le> 0"
    | (slide) "selectedOption p > 0" "selectedOption p - 1 < displayedOptionsStart p"
    | (stay) "selectedOption p > 0" "\<not> selectedOption p - 1 < displayedOptionsStart p"
    by linarith
  then show ?thesis
  proof cases
    case wrap
    then have "moveUp d p = Some (moved p (?n - 1) (?n - ?h) ?n)"
      using n h by (simp add: moveUp_def moved_def sliceOK_def Let_def)
    moreover have "windowOK (moved p (?n - 1) (?n - ?h) ?n)"
      using n h by (simp add: windowOK_def moved_def)
    ultimately show ?thesis by blast
  next
    case slide
    with assms have s: "displayedOptionsStart p = selectedOption p" "displayedOptionsStart p - 1 \<ge> 0"
      by (auto simp: windowOK_def)
    let ?m = "moved p (selectedOption p - 1) (displayedOptionsStart p - 1) (displayedOptionsEnd p - 1)"
    have "moveUp d p = Some ?m"
      using slide s assms by (simp add: moveUp_def moved_def sliceOK_def Let_def windowOK_def)
    moreover have "windowOK ?m"
      using slide s assms by (simp add: windowOK_def moved_def)
    ultimately show ?thesis by blast
  next
    case stay
    let ?m = "moved p (selectedOption p - 1) (displayedOptionsStart p) (displayedOptionsEnd p)"
    have "moveUp d p = Some ?m"
      using stay by (simp add: moveUp_def moved_def Let_def)
    moreover have "windowOK ?m"
      using stay assms by (simp add: windowOK_def moved_def)
    ultimately show ?thesis by blast
  qed
qed

lemma moveDown_window:
  assumes "windowOK p" "1 \<le> MaxHeight p"
  shows "\<exists>f s e. moveDown d p = Some (moved p f s e) \<and> windowOK (moved p f s e)"
proof -
  let ?n = "int (length (fuzzySearchMatches p))"
  let ?h = "maxHeightOf p"
  from assms have n: "1 \<le> ?n" and h: "1 \<le> ?h" "?h \<le> ?n" "?h \<le> MaxHeight p"
    by (auto simp: windowOK_def maxHeightOf_def)
  have ok: "sliceOK d p 0 ?h" using h by (simp add: sliceOK_def)
  consider (wrap) "\<not> selectedOption p < ?n - 1"
    | (slide) "selectedOption p < ?n - 1" "selectedOption p + 1 \<ge> displayedOptionsEnd p"
    | (stay) "selectedOption p < ?n - 1" "\<not> selectedOption p + 1 \<ge> displayedOptionsEnd p"
    by linarith
  then show ?thesis
  proof cases
    case wrap
    then have "moveDown d p = Some (moved p 0 0 ?h)"
      using ok n h by (simp add: moveDown_def moved_def sliceOK_def Let_def)
    moreover have "windowOK (moved p 0 0 ?h)"
      using n h by (simp add: windowOK_def moved_def)
    ultimately show ?thesis by blast
  next
    case slide
    let ?m = "moved p (selectedOption p + 1) (displayedOptionsStart p + 1) (displayedOptionsEnd p + 1)"
    have "moveDown d p = Some ?m"
      using ok slide assms by (simp add: moveDown_def moved_def sliceOK_def Let_def windowOK_def)
    moreover have "windowOK ?m"
      using slide assms by (simp add: windowOK_def moved_def)
    ultimately show ?thesis by blast
  next
    case stay
    let ?m = "moved p (selectedOption p + 1) (displayedOptionsStart p) (displayedOptionsEnd p)"
    have "moveDown d p = Some ?m"
      using ok stay by (simp add: moveDown_def moved_def Let_def)
    moreover have "windowOK ?m"
      using stay assms by (simp add: windowOK_def moved_def)
    ultimately show ?thesis by blast
  qed
qed

lemma select_navigation_keeps_window:
  assumes "navigates (Code k)" "windowOK p" "1 \<le> MaxHeight p"
    and "filterMatches d p = fuzzySearchMatches p"
  shows "\<exists>p'. selectKey d p k = Some (Continue p') \<and> windowOK p' \<and> MaxHeight p' = MaxHeight p
           \<and> filterMatches d p' = fuzzySearchMatches p'"
proof -
  from assms(2) have ne: "fuzzySearchMatches p \<noteq> []" by (auto simp: windowOK_def)
  from assms(1) consider (up) "Code k = Up \<or> Code k = CtrlP" | (down) "Code k = Down \<or> Code k = CtrlN"
    by (auto simp: navigates_def)
  then show ?thesis
  proof cases
    case up
    from moveUp_window [OF assms(2,3), of d] obtain f s e
      where m: "moveUp d p = Some (moved p f s e)" "windowOK (moved p f s e)" by blast
    have "filterMatches d (moved p f s e) = fuzzySearchMatches (moved p f s e)"
      using assms(4) by (simp add: moved_def filterMatches_def)
    from select_render_window [OF m(2) this] this obtain p'
      where "renderSelectMenu d (moved p f s e) = Some p'" "windowOK p'"
        "MaxHeight p' = MaxHeight p" "filterMatches d p' = fuzzySearchMatches p'"
      by (auto simp: moved_def)
    with up m ne show ?thesis by (auto simp: selectKey_def)
  next
    case down
    from moveDown_window [OF assms(2,3), of d] obtain f s e
      where m: "moveDown d p = Some (moved p f s e)" "windowOK (moved p f s e)" by blast
    have "filterMatches d (moved p f s e) = fuzzySearchMatches (moved p f s e)"
      using assms(4) by (simp add: moved_def filterMatches_def)
    from select_render_window [OF m(2) this] this obtain p'
      where "renderSelectMenu d (moved p f s e) = Some p'" "windowOK p'"
        "MaxHeight p' = MaxHeight p" "filterMatches d p' = fuzzySearchMatches p'"
      by (auto simp: moved_def)
    with down m ne show ?thesis by (auto simp: selectKey_def)
  qed
qed

lemma multiselect_navigation_keeps_window:
  assumes "navigates (Code k)" "Code k \<noteq> KeyConfirm p" "Code k \<noteq> KeySelect p"
    and "windowOK p" "1 \<le> MaxHeight p" "rendered d p"
  shows "\<exists>p'. multiselectKey d p k = Some (Continue p') \<and> windowOK p' \<and> MaxHeight p' = MaxHeight p
           \<and> rendered d p' \<and> KeyConfirm p' = KeyConfirm p \<and> KeySelect p' = KeySelect p"
proof -
  from assms(4) have ne: "fuzzySearchMatches p \<noteq> []" by (auto simp: windowOK_def)
  have keep: "\<And>f s e. rendered d (moved p f s e)"
    using assms(6) filterMatches_cong [of "moved p _ _ _" p d]
    by (simp add: rendered_def moved_def)
  from assms(1) consider (up) "Code k = Up \<or> Code k = CtrlP" | (down) "Code k = Down \<or> Code k = CtrlN"
    by (auto simp: navigates_def)
  then show ?thesis
  proof cases
    case up
    from moveUp_window [OF assms(4,5), of d] obtain f s e
      where m: "moveUp d p = Some (moved p f s e)" "windowOK (moved p f s e)" by blast
    from multiselect_render_window [OF m(2) keep] obtain p'
      where r: "mRenderSelectMenu d (moved p f s e) = Some p'" "windowOK p'"
        "MaxHeight p' = MaxHeight p" "rendered d p'"
      by (auto simp: moved_def)
    from r(1) have "KeyConfirm p' = KeyConfirm p" "KeySelect p' = KeySelect p"
      by (auto simp: mRenderSelectMenu_def Let_def moved_def split: option.splits if_splits)
    with up m ne r assms(2,3) show ?thesis by (auto simp: multiselectKey_def)
  next
    case down
    from moveDown_window [OF assms(4,5), of d] obtain f s e
      where m: "moveDown d p = Some (moved p f s e)" "windowOK (moved p f s e)" by blast
    from multiselect_render_window [OF m(2) keep] obtain p'
      where r: "mRenderSelectMenu d (moved p f s e) = Some p'" "windowOK p'"
        "MaxHeight p' = MaxHeight p" "rendered d p'"
      by (auto simp: moved_def)
    from r(1) have "KeyConfirm p' = KeyConfirm p" "KeySelect p' = KeySelect p"
      by (auto simp: mRenderSelectMenu_def Let_def moved_def split: option.splits if_splits)
    with down m ne r assms(2,3) show ?thesis by (auto simp: multiselectKey_def)
  qed
qed

lemma select_navigation_run_keeps_window:
  assumes "list_all (\<lambda>k. navigates (Code k)) ks" "windowOK p" "1 \<le> MaxHeight p"
    and "filterMatches d p = fuzzySearchMatches p"
  shows "\<exists>p'. Listen (selectKey d) p ks = Pending p' \<and> windowOK p'"
  using assms
proof (induction ks arbitrary: p)
  case Nil
  then show ?case by simp
next
  case (Cons k ks)
  from Cons.prems(1) have k: "navigates (Code k)" and ks: "list_all (\<lambda>k. navigates (Code k)) ks"
    by simp_all
  from select_navigation_keeps_window [OF k Cons.prems(2,3,4)] obtain p1
    where s: "selectKey d p k = Some (Continue p1)" "windowOK p1" "MaxHeight p1 = MaxHeight p"
      "filterMatches d p1 = fuzzySearchMatches p1" by blast
  from Cons.IH [OF ks s(2) _ s(4)] s(3) Cons.prems(3) obtain p'
    where "Listen (selectKey d) p1 ks = Pending p'" "windowOK p'" by auto
  with s(1) show ?case by simp
qed

subsection \<open>The multiselect printer without filter\<close>

lemma multiselect_without_filter_step:
  assumes "\<not> Filter p" "fuzzySearchString p = []" "multiselectKey d p k = Some (Continue p')"
  shows "\<not> Filter p' \<and> fuzzySearchString p' = []"
  using assms
  unfolding multiselectKey_def Let_def mRenderSelectMenu_def moveUp_def moveDown_def
    resetWindow_def eraseRune_def selectOption_def
  by (auto split: if_splits option.splits bool.splits simp: bind_eq_Some_conv)

lemma multiselect_without_filter_run:
  assumes "\<not> Filter p" "fuzzySearchString p = []"
    and "Listen (multiselectKey d) p ks = Pending p'"
  shows "\<not> Filter p' \<and> fuzzySearchString p' = []"
  using assms
proof (induction ks arbitrary: p)
  case Nil
  then show ?case by simp
next
  case (Cons k ks)
  from Cons.prems(3) obtain p1 where s: "multiselectKey d p k = Some (Continue p1)"
    and r: "Listen (multiselectKey d) p1 ks = Pending p'"
    by (auto split: option.splits step.splits)
  from multiselect_without_filter_step [OF Cons.prems(1,2) s]
  have "\<not> Filter p1" "fuzzySearchString p1 = []" by simp_all
  from Cons.IH [OF this r] show ?case .
qed

lemma multiselect_without_filter_keeps_query_empty:
  assumes "\<not> Filter p" "fuzzySearchString p = []" "multiselectStart d p = Inr p0"
    and "Listen (multiselectKey d) p0 ks = Pending p'"
  shows "fuzzySearchString p' = [] \<and> fuzzySearchMatches p' = filterMatches d p'"
proof -
  from assms(3) have "Filter p0 = Filter p \<and> fuzzySearchString p0 = fuzzySearchString p"
    unfolding multiselectStart_def Let_def
    by (auto split: if_splits option.splits dest!: multiselect_render_out)
  with assms(1,2) have "\<not> Filter p0" "fuzzySearchString p0 = []" by simp_all
  from multiselect_without_filter_run [OF this assms(4)]
  have "fuzzySearchString p' = []" by simp
  moreover have "rendered d p'"
    using Listen_rendered [OF multiselectStart_rendered [OF assms(3)] assms(4)] .
  ultimately show ?thesis by (simp add: rendered_def)
qed

subsection \<open>A stale window and the next keys\<close>

text \<open>
  With the capacities of the concrete instance: after three down keys and a space the
  window \<open>[1, 4)\<close> stands over a filtered list of two entries; a down key and an up key
  then slide it to \<open>[0, 3)\<close>, and the slice expression
  \<open>p.fuzzySearchMatches[p.displayedOptionsStart:p.displayedOptionsEnd]\<close> exceeds the capacity 2.
\<close>

lemma stale_window_panics_on_up:
  "selectShow stdDeps (selectOf 3 spaced)
     [press Down, press Down, press Down, press Space, press Down, press Up] = Panicked
   \<and> multiselectShow stdDeps (multiselectOf 3 spaced)
     [press Down, press Down, press Down, press Space, press Down, press Up] = Panicked"
  by code_simp

section \<open>Properties\<close>

text \<open>
  C1. Single-select: on the confirm key over a non-empty filtered list, \<open>Show\<close> is meant to
  return the option whose display text is the focused entry of the filtered list. With
  the candidates alpha, beta, gamma and the query \<open>g\<close>, the filtered list is \<open>[gamma]\<close>
  and the focus is on gamma (\<open>result\<close>, the text the finished menu shows, is gamma), yet
  \<open>Show\<close> returns \<open>p.Options[p.selectedOption]\<close>, which is alpha: the focus index counts
  in the filtered list and is read in the unfiltered one.
\<close>

theorem select_confirm_returns_option_at_filtered_index:
  "returned (selectShow stdDeps
       (WithOptions (\<lambda>s. s) [''alpha'', ''beta'', ''gamma''] NewGenericInteractiveSelect)
       [rune ''g'', press Enter]) = Some ''alpha''
   \<and> map_option (\<lambda>p. (view p, result p))
       (printerOf (selectShow stdDeps
          (WithOptions (\<lambda>s. s) [''alpha'', ''beta'', ''gamma''] NewGenericInteractiveSelect)
          [rune ''g'', press Enter]))
     = Some ((0, 0, 3, [''gamma'']), ''gamma'')"
  by code_simp


text \<open>
  C2. After every key the window is meant to satisfy
  \<open>0 \<le> start \<le> focus < end \<le> len(filtered)\<close> with \<open>end - start \<le> MaxHeight\<close>. Over five
  candidates and three rows, the rune \<open>g\<close> leaves the filtered list \<open>[gamma]\<close> under the
  window \<open>[0, 3)\<close> in both engines: the rune branch sizes the window with the length
  the filtered list had before the query changed, whereas the backspace branch
  re-filters first. With keys of navigation only, a default option shown in a single
  row starts with the focus 1 under the window \<open>[0, 1)\<close>, and the down key leaves the
  focus 2 under \<open>[1, 2)\<close>.
\<close>

theorem window_containment_broken_by_rune_and_default:
  "map_option (\<lambda>p. (view p, windowOK p)) (printerOf (selectShow stdDeps (selectOf 3 greek) [rune ''g'']))
     = Some ((0, 0, 3, [''gamma'']), False)
   \<and> map_option (\<lambda>p. (view p, windowOK p))
       (printerOf (multiselectShow stdDeps (multiselectOf 3 greek) [rune ''g'']))
     = Some ((0, 0, 3, [''gamma'']), False)
   \<and> map_option (\<lambda>p. (view p, windowOK p))
       (printerOf (selectShow stdDeps
          (WithDefaultOption (\<lambda>s. s) ''beta'' (selectOf 1 greek)) [press Down]))
     = Some ((2, 1, 2, greek), False)"
  by code_simp

text \<open>
  C3. Every key that changes the query is meant to reset the window to
  \<open>[0, min(MaxHeight, len(filtered)))\<close> and the focus to 0. The rune \<open>g\<close> over five
  candidates and three rows leaves the end of the window at 3 over a filtered list of
  length 1, in both engines; the space key, after three down keys, resets the focus and
  leaves the window at \<open>[1, 4)\<close> over a filtered list of length 2, in both engines. (The
  backspace branch does reset both.)
\<close>

theorem query_change_leaves_stale_window:
  "map_option view (printerOf (selectShow stdDeps (selectOf 3 greek) [rune ''g'']))
     = Some (0, 0, 3, [''gamma''])
   \<and> map_option view (printerOf (multiselectShow stdDeps (multiselectOf 3 greek) [rune ''g'']))
     = Some (0, 0, 3, [''gamma''])
   \<and> map_option view (printerOf (selectShow stdDeps (selectOf 3 spaced)
        [press Down, press Down, press Down, press Space]))
     = Some (0, 1, 4, [''a b'', ''c d''])
   \<and> map_option view (printerOf (multiselectShow stdDeps (multiselectOf 3 spaced)
        [press Down, press Down, press Down, press Space]))
     = Some (0, 1, 4, [''a b'', ''c d''])"
  by code_simp

text \<open>
  C4. With filtering disabled the query is meant to stay empty and the filtered list to
  stay the candidate list, whatever the keys. The multiselect engine guards its space
  branch with \<open>if p.Filter\<close>; the select engine does not, so with \<open>Filter = false\<close> one
  space key makes the query a space and filters the candidates down to those that
  contain one.
\<close>

theorem select_space_edits_query_without_filter:
  "map_option (\<lambda>p. (Filter p, fuzzySearchString p, fuzzySearchMatches p, optionsStr p))
       (printerOf (selectShow stdDeps (WithFilter False (selectOf 3 spaced)) [press Space]))
     = Some (False, '' '', [''a b'', ''c d''], [''a b'', ''c d'', ''e'', ''f'', ''g''])
   \<and> map_option (\<lambda>p. (Filter p, fuzzySearchString p, fuzzySearchMatches p, optionsStr p))
       (printerOf (multiselectShow stdDeps (mWithFilter False (multiselectOf 3 spaced)) [press Space]))
     = Some (False, [], [''a b'', ''c d'', ''e'', ''f'', ''g''], [''a b'', ''c d'', ''e'', ''f'', ''g''])"
  by code_simp

text \<open>
  C5. Multiselect: the selection outlives every change of the query. Over any sequence of
  keys that edit the query (runes, spaces, backspaces handled by those branches), from
  any printer with a non-negative \<open>MaxHeight\<close> and a selection that can be read, the loop
  neither stops nor panics, the list of selected candidate indices is left as it was, and
  \<open>isSelected\<close> answers for every text as it did before: an item chosen under a filter is
  still reported chosen once the filter is cleared or changed.
\<close>

theorem multiselect_selection_survives_query_changes:
  assumes "list_all (editsQuery p) ks" "0 \<le> MaxHeight p"
    and "validIn (optionsStr p) (selectedOptions p)"
  shows "\<exists>p'. Listen (multiselectKey d) p ks = Pending p'
           \<and> selectedOptions p' = selectedOptions p \<and> optionsStr p' = optionsStr p
           \<and> (\<forall>t. isSelected p' t = isSelected p t)"
  using assms
proof (induction ks arbitrary: p)
  case Nil
  then show ?case by simp
next
  case (Cons k ks)
  from Cons.prems have k: "editsQuery p k" and ks: "list_all (editsQuery p) ks" by simp_all
  from multiselect_query_step [OF k Cons.prems(2,3), of d]
  obtain p1 where s: "multiselectKey d p k = Some (Continue p1)"
    and e: "selectedOptions p1 = selectedOptions p" "optionsStr p1 = optionsStr p"
      "MaxHeight p1 = MaxHeight p" "KeyConfirm p1 = KeyConfirm p" "KeySelect p1 = KeySelect p"
    by blast
  have "editsQuery p1 = editsQuery p" by (simp add: editsQuery_def e fun_eq_iff)
  with ks have ks1: "list_all (editsQuery p1) ks" by simp
  from Cons.IH [OF ks1] Cons.prems(2,3) e
  obtain p' where "Listen (multiselectKey d) p1 ks = Pending p'"
    "selectedOptions p' = selectedOptions p1" "optionsStr p' = optionsStr p1"
    "\<forall>t. isSelected p' t = isSelected p1 t"
    by auto
  with s e show ?case by (simp add: isSelected_def)
qed

text \<open>
  The run behind the witness: the rune \<open>g\<close> narrows the list to gamma, the select key
  chooses it (candidate index 2); a backspace then clears the filter and a rune changes it.
\<close>

theorem multiselect_selection_survives_query_changes_witness:
  "multiselectShow stdDeps (multiselectOf 3 greek) [rune ''g'', press Enter]
     = AwaitingKey (greekMultiselect 0 0 3 ''g'' [''gamma''] [2] 4)
   \<and> isSelected (greekMultiselect 0 0 3 ''g'' [''gamma''] [2] 4) ''gamma'' = Some True
   \<and> (\<exists>p'. Listen (multiselectKey stdDeps) (greekMultiselect 0 0 3 ''g'' [''gamma''] [2] 4)
               [press Backspace, rune ''e''] = Pending p'
         \<and> selectedOptions p' = [2]
         \<and> optionsStr p' = greek
         \<and> (\<forall>t. isSelected p' t = isSelected (greekMultiselect 0 0 3 ''g'' [''gamma''] [2] 4) t)
         \<and> isSelected p' ''gamma'' = Some True)"
proof -
  let ?g = "greekMultiselect 0 0 3 ''g'' [''gamma''] [2] 4"
  have run: "multiselectShow stdDeps (multiselectOf 3 greek) [rune ''g'', press Enter]
               = AwaitingKey ?g"
    by code_simp
  have chosen: "isSelected ?g ''gamma'' = Some True" by code_simp
  have h1: "list_all (editsQuery ?g) [press Backspace, rune ''e'']" by code_simp
  have h2: "0 \<le> MaxHeight ?g" by code_simp
  have h3: "validIn (optionsStr ?g) (selectedOptions ?g)" by code_simp
  have e: "selectedOptions ?g = [2]" "optionsStr ?g = greek" by code_simp+
  from multiselect_selection_survives_query_changes [OF h1 h2 h3, of stdDeps]
  obtain p' where p: "Listen (multiselectKey stdDeps) ?g [press Backspace, rune ''e''] = Pending p'"
    "selectedOptions p' = selectedOptions ?g" "optionsStr p' = optionsStr ?g"
    "\<forall>t. isSelected p' t = isSelected ?g t"
    by blast
  from p(4) chosen have "isSelected p' ''gamma'' = Some True" by simp
  with p e run chosen show ?thesis by auto
qed

text \<open>
  C6. Multiselect: when the confirm key is pressed over a non-empty filtered list after
  any run of keys, \<open>Show\<close> returns the options the caller configured, read at the
  selected indices in the order of the selection list. That order is the order of
  insertion: the selection starts as the printer had it, and every key of the run
  changes it as the spec says, that is, a toggle adds the candidate index at the end or
  cuts the first matching index out, clear-all and select-all replace it, and every other
  key (navigation, query edits) leaves the list and its order alone.
\<close>

theorem multiselect_returns_selection_in_insertion_order:
  assumes start: "multiselectStart d p = Inr p0" and listen: "\<not> listenFails d"
    and run: "Listen (multiselectKey d) p0 ks = Pending p1"
    and confirm: "Code k = KeyConfirm p1" and nonempty: "fuzzySearchMatches p1 \<noteq> []"
    and valid: "validIn (Options p) (selectedOptions p1)"
  shows "multiselectShow d p (ks @ [k])
           = Returned (map (\<lambda>i. Options p ! nat i) (selectedOptions p1)) False
               (p1\<lparr>renders := renders p1 + 1\<rparr>) []
       \<and> selectedOptions p0 = selectedOptions p
       \<and> (\<forall>js j rest. ks = js @ j # rest \<longrightarrow>
             (\<exists>q q'. Listen (multiselectKey d) p0 js = Pending q
                \<and> Listen (multiselectKey d) p0 (js @ [j]) = Pending q'
                \<and> selectedOptions q' = specSelectionAfter q j))"
proof (intro conjI allI impI)
  have o: "Options p1 = Options p"
    using Listen_keeps_Options [OF run] multiselectStart_keeps [OF start] by simp
  with valid have v: "validIn (Options p1) (selectedOptions p1)" by simp
  have fin: "mRenderFinishedMenu p1 = Some (p1\<lparr>renders := renders p1 + 1\<rparr>)"
    using readAll_valid [OF v] by (simp add: mRenderFinishedMenu_def)
  have key: "multiselectKey d p1 k = Some (Stop (p1\<lparr>renders := renders p1 + 1\<rparr>))"
    using confirm nonempty fin by (simp add: multiselectKey_def)
  have "Listen (multiselectKey d) p0 (ks @ [k]) = Halted (p1\<lparr>renders := renders p1 + 1\<rparr>) False []"
    using run key by (simp add: Listen_append)
  moreover have "getSelectedOptions (p1\<lparr>renders := renders p1 + 1\<rparr>)
                   = Some (map (\<lambda>i. Options p ! nat i) (selectedOptions p1))"
    using readAll_valid [OF v] o by (simp add: getSelectedOptions_def)
  ultimately show "multiselectShow d p (ks @ [k])
           = Returned (map (\<lambda>i. Options p ! nat i) (selectedOptions p1)) False
               (p1\<lparr>renders := renders p1 + 1\<rparr>) []"
    using start listen by (simp add: multiselectShow_def)
next
  show "selectedOptions p0 = selectedOptions p"
    using multiselectStart_keeps [OF start] by simp
next
  fix js j rest
  assume split: "ks = js @ j # rest"
  with run have r: "Listen (multiselectKey d) p0 (js @ j # rest) = Pending p1" by simp
  then obtain q where q: "Listen (multiselectKey d) p0 js = Pending q"
    and t: "Listen (multiselectKey d) q (j # rest) = Pending p1"
    by (auto simp: Listen_append split: listened.splits)
  from t obtain q' where s: "multiselectKey d q j = Some (Continue q')"
    by (auto split: option.splits step.splits)
  from q s have "Listen (multiselectKey d) p0 (js @ [j]) = Pending q'"
    by (simp add: Listen_append)
  with q multiselectKey_selection [OF s]
  show "\<exists>q q'. Listen (multiselectKey d) p0 js = Pending q
                \<and> Listen (multiselectKey d) p0 (js @ [j]) = Pending q'
                \<and> selectedOptions q' = specSelectionAfter q j"
    by blast
qed

text \<open>
  The run behind the witness: gamma is chosen first, alpha second, then the focus moves
  down; the result is gamma, alpha, which is not the order of the candidates.
\<close>

theorem multiselect_returns_selection_in_insertion_order_witness:
  "multiselectShow stdDeps (multiselectOf 3 greek)
      ([press Down, press Down, press Enter, press Up, press Up, press Enter, press Down]
       @ [press Tab])
     = Returned [''gamma'', ''alpha''] False (greekMultiselect 1 0 3 [] greek [2, 0] 10) []
   \<and> (\<exists>q q'. Listen (multiselectKey stdDeps) (greekMultiselect 0 0 3 [] greek [] 2)
                 [press Down, press Down, press Enter, press Up, press Up] = Pending q
         \<and> Listen (multiselectKey stdDeps) (greekMultiselect 0 0 3 [] greek [] 2)
                 ([press Down, press Down, press Enter, press Up, press Up] @ [press Enter])
             = Pending q'
         \<and> selectedOptions q' = specSelectionAfter q (press Enter))
   \<and> specSelectionAfter (greekMultiselect 0 0 3 [] greek [2] 7) (press Enter) = [2, 0]
   \<and> specSelectionAfter (greekMultiselect 0 0 3 [] greek [2, 0] 8) (press Down) = [2, 0]"
proof -
  let ?p0 = "greekMultiselect 0 0 3 [] greek [] 2"
  let ?p1 = "greekMultiselect 1 0 3 [] greek [2, 0] 9"
  let ?ks = "[press Down, press Down, press Enter, press Up, press Up, press Enter, press Down]"
  have h1: "multiselectStart stdDeps (multiselectOf 3 greek) = Inr ?p0" by code_simp
  have h2: "\<not> listenFails stdDeps" by code_simp
  have h3: "Listen (multiselectKey stdDeps) ?p0 ?ks = Pending ?p1" by code_simp
  have h4: "Code (press Tab) = KeyConfirm ?p1" by code_simp
  have h5: "fuzzySearchMatches ?p1 \<noteq> []" by code_simp
  have h6: "validIn (Options (multiselectOf 3 greek)) (selectedOptions ?p1)" by code_simp
  have e: "map (\<lambda>i. Options (multiselectOf 3 greek) ! nat i) (selectedOptions ?p1)
             = [''gamma'', ''alpha'']"
    by code_simp
  have r: "?p1\<lparr>renders := renders ?p1 + 1\<rparr> = greekMultiselect 1 0 3 [] greek [2, 0] 10"
    by code_simp
  have s: "?ks = [press Down, press Down, press Enter, press Up, press Up] @ press Enter # [press Down]"
    by simp
  have v1: "specSelectionAfter (greekMultiselect 0 0 3 [] greek [2] 7) (press Enter) = [2, 0]"
    by code_simp
  have v2: "specSelectionAfter (greekMultiselect 0 0 3 [] greek [2, 0] 8) (press Down) = [2, 0]"
    by code_simp
  note t = multiselect_returns_selection_in_insertion_order [OF h1 h2 h3 h4 h5 h6]
  from t have "multiselectShow stdDeps (multiselectOf 3 greek) (?ks @ [press Tab])
          = Returned (map (\<lambda>i. Options (multiselectOf 3 greek) ! nat i) (selectedOptions ?p1)) False
               (?p1\<lparr>renders := renders ?p1 + 1\<rparr>) []" by blast
  with e r have t1: "multiselectShow stdDeps (multiselectOf 3 greek) (?ks @ [press Tab])
     = Returned [''gamma'', ''alpha''] False (greekMultiselect 1 0 3 [] greek [2, 0] 10) []"
    by simp
  from t s have t2: "\<exists>q q'. Listen (multiselectKey stdDeps) ?p0
                 [press Down, press Down, press Enter, press Up, press Up] = Pending q
         \<and> Listen (multiselectKey stdDeps) ?p0
                 ([press Down, press Down, press Enter, press Up, press Up] @ [press Enter])
             = Pending q'
         \<and> selectedOptions q' = specSelectionAfter q (press Enter)"
    by blast
  show ?thesis by (intro conjI t1 t2 v1 v2)
qed




text \<open>
  C8. Over an empty filtered list the up, down, select and confirm keys change nothing
  and keep the loop going. In the select engine the up, down and confirm branches return
  at their guard. In the multiselect engine, in any state the loop of \<open>Show\<close> has reached,
  the up, down and confirm branches return at their guard, and the select branch only
  renders again: the printer is the same but for the count of renders.
\<close>

theorem keys_on_empty_filtered_list_change_nothing:
  assumes sempty: "fuzzySearchMatches p = []"
    and skey: "navigates (Code k) \<or> Code k = Enter"
    and start: "multiselectStart d m = Inr m0"
    and run: "Listen (multiselectKey d) m0 ks = Pending m1"
    and mempty: "fuzzySearchMatches m1 = []"
    and mkey: "navigates (Code j) \<or> Code j = KeySelect m1 \<or> Code j = KeyConfirm m1"
  shows "selectKey d p k = Some (Continue p)
       \<and> multiselectKey d m1 j
           = Some (Continue (if Code j = KeySelect m1 \<and> Code j \<noteq> KeyConfirm m1
                             then m1\<lparr>renders := renders m1 + 1\<rparr> else m1))"
proof
  show "selectKey d p k = Some (Continue p)"
    using sempty skey by (auto simp: selectKey_def navigates_def)
next
  have r: "rendered d m1" using Listen_rendered [OF multiselectStart_rendered [OF start] run] .
  then have v: "validIn (optionsStr m1) (selectedOptions m1)"
    and f: "filterMatches d m1 = []" using mempty by (simp_all add: rendered_def)
  have re: "mRenderSelectMenu d m1 = Some (m1\<lparr>renders := renders m1 + 1\<rparr>)"
    using mRenderSelectMenu_valid [OF v, of d] f mempty by simp
  show "multiselectKey d m1 j
           = Some (Continue (if Code j = KeySelect m1 \<and> Code j \<noteq> KeyConfirm m1
                             then m1\<lparr>renders := renders m1 + 1\<rparr> else m1))"
    using mempty mkey re by (auto simp: multiselectKey_def navigates_def)
qed

text \<open>Witness: the rune \<open>z\<close> matches no candidate; the confirm or select key follows.\<close>

theorem keys_on_empty_filtered_list_change_nothing_witness:
  "selectShow stdDeps (selectOf 3 greek) [rune ''z'']
     = AwaitingKey (greekSelect 0 0 3 ''z'' [] ''alpha'' 3)
   \<and> selectKey stdDeps (greekSelect 0 0 3 ''z'' [] ''alpha'' 3) (press Enter)
     = Some (Continue (greekSelect 0 0 3 ''z'' [] ''alpha'' 3))
   \<and> multiselectShow stdDeps (multiselectOf 3 greek) [rune ''z'']
     = AwaitingKey (greekMultiselect 0 0 3 ''z'' [] [] 3)
   \<and> multiselectKey stdDeps (greekMultiselect 0 0 3 ''z'' [] [] 3) (press Enter)
     = Some (Continue (greekMultiselect 0 0 3 ''z'' [] [] 4))"
proof -
  let ?p = "greekSelect 0 0 3 ''z'' [] ''alpha'' 3"
  let ?m0 = "greekMultiselect 0 0 3 [] greek [] 2"
  let ?m1 = "greekMultiselect 0 0 3 ''z'' [] [] 3"
  have r1: "selectShow stdDeps (selectOf 3 greek) [rune ''z''] = AwaitingKey ?p" by code_simp
  have r2: "multiselectShow stdDeps (multiselectOf 3 greek) [rune ''z''] = AwaitingKey ?m1"
    by code_simp
  have h1: "fuzzySearchMatches ?p = []" by code_simp
  have h2: "navigates (Code (press Enter)) \<or> Code (press Enter) = Enter" by code_simp
  have h3: "multiselectStart stdDeps (multiselectOf 3 greek) = Inr ?m0" by code_simp
  have h4: "Listen (multiselectKey stdDeps) ?m0 [rune ''z''] = Pending ?m1" by code_simp
  have h5: "fuzzySearchMatches ?m1 = []" by code_simp
  have h6: "navigates (Code (press Enter)) \<or> Code (press Enter) = KeySelect ?m1
            \<or> Code (press Enter) = KeyConfirm ?m1" by code_simp
  have e: "(if Code (press Enter) = KeySelect ?m1 \<and> Code (press Enter) \<noteq> KeyConfirm ?m1
            then ?m1\<lparr>renders := renders ?m1 + 1\<rparr> else ?m1) = greekMultiselect 0 0 3 ''z'' [] [] 4"
    by code_simp
  note t = keys_on_empty_filtered_list_change_nothing [OF h1 h2 h3 h4 h5 h6]
  from t have t1: "selectKey stdDeps ?p (press Enter) = Some (Continue ?p)" by blast
  from t e have t2: "multiselectKey stdDeps ?m1 (press Enter)
      = Some (Continue (greekMultiselect 0 0 3 ''z'' [] [] 4))" by simp
  show ?thesis by (intro conjI r1 t1 r2 t2)
qed

text \<open>
  C9, as amended. Both constructors set \<open>MaxHeight\<close> to 5, and a \<open>MaxHeight\<close> of exactly 0
  at the call is replaced by the package default: \<open>Show\<close> behaves as it does on the printer
  with the default written in.
\<close>

theorem max_height_default_and_zero_fallback:
  assumes "MaxHeight p = 0" and "MaxHeight m = 0"
  shows "MaxHeight (NewGenericInteractiveSelect :: 'a InteractiveGenericSelectPrinter) = 5
       \<and> MaxHeight (NewGenericInteractiveMultiselect (options :: 'a list)) = 5
       \<and> selectShow d p ks
           = selectShow d (p\<lparr>MaxHeight := DefaultInteractiveSelect_MaxHeight d\<rparr>) ks
       \<and> multiselectShow d m ks
           = multiselectShow d (m\<lparr>MaxHeight := DefaultInteractiveMultiselect_MaxHeight d\<rparr>) ks"
proof -
  have "selectStart d p = selectStart d (p\<lparr>MaxHeight := DefaultInteractiveSelect_MaxHeight d\<rparr>)"
    using assms(1) by (simp add: selectStart_def Let_def swap_MaxHeight_fuzzySearchMatches)
  moreover have "multiselectStart d m
      = multiselectStart d (m\<lparr>MaxHeight := DefaultInteractiveMultiselect_MaxHeight d\<rparr>)"
    using assms(2) by (simp add: multiselectStart_def Let_def swap_MaxHeight_fuzzySearchMatches)
  ultimately show ?thesis
    by (simp add: selectShow_def multiselectShow_def NewGenericInteractiveSelect_def
        NewGenericInteractiveMultiselect_def)
qed

text \<open>Witness: with \<open>MaxHeight = 0\<close> and a default of 5, five rows are shown.\<close>

theorem max_height_default_and_zero_fallback_witness:
  "MaxHeight (selectOf 0 greek) = 0 \<and> MaxHeight (multiselectOf 0 greek) = 0
   \<and> selectShow stdDeps (selectOf 0 greek) [press Down]
       = selectShow stdDeps ((selectOf 0 greek)\<lparr>MaxHeight := DefaultInteractiveSelect_MaxHeight stdDeps\<rparr>) [press Down]
   \<and> selectShow stdDeps (selectOf 0 greek) [press Down]
       = AwaitingKey ((greekSelect 1 0 5 [] greek ''beta'' 3)\<lparr>MaxHeight := 5\<rparr>)
   \<and> multiselectShow stdDeps (multiselectOf 0 greek) [press Down]
       = multiselectShow stdDeps
           ((multiselectOf 0 greek)\<lparr>MaxHeight := DefaultInteractiveMultiselect_MaxHeight stdDeps\<rparr>) [press Down]
   \<and> multiselectShow stdDeps (multiselectOf 0 greek) [press Down]
       = AwaitingKey ((greekMultiselect 1 0 5 [] greek [] 3)\<lparr>MaxHeight := 5\<rparr>)"
proof -
  have h1: "MaxHeight (selectOf 0 greek) = 0" by code_simp
  have h2: "MaxHeight (multiselectOf 0 greek) = 0" by code_simp
  have e1: "selectShow stdDeps (selectOf 0 greek) [press Down]
       = AwaitingKey ((greekSelect 1 0 5 [] greek ''beta'' 3)\<lparr>MaxHeight := 5\<rparr>)" by code_simp
  have e2: "multiselectShow stdDeps (multiselectOf 0 greek) [press Down]
       = AwaitingKey ((greekMultiselect 1 0 5 [] greek [] 3)\<lparr>MaxHeight := 5\<rparr>)" by code_simp
  note t = max_height_default_and_zero_fallback [OF h1 h2, where d = stdDeps and ks = "[press Down]"]
  from t have t1: "selectShow stdDeps (selectOf 0 greek) [press Down]
       = selectShow stdDeps ((selectOf 0 greek)\<lparr>MaxHeight := DefaultInteractiveSelect_MaxHeight stdDeps\<rparr>) [press Down]"
    by blast
  from t have t2: "multiselectShow stdDeps (multiselectOf 0 greek) [press Down]
       = multiselectShow stdDeps
           ((multiselectOf 0 greek)\<lparr>MaxHeight := DefaultInteractiveMultiselect_MaxHeight stdDeps\<rparr>) [press Down]"
    by blast
  show ?thesis by (intro conjI h1 h2 t1 t2 e1 e2)
qed

text \<open>
  C9 as stated fails below zero: the test is \<open>p.MaxHeight == 0\<close>, so \<open>MaxHeight = -1\<close> is
  used as it is, and the first slice expression \<open>p.fuzzySearchMatches[:maxHeight]\<close>
  panics, where the printer with the default written in shows its menu.
\<close>

theorem negative_max_height_is_not_replaced:
  "selectShow stdDeps (selectOf (- 1) greek) [] = Panicked
   \<and> selectShow stdDeps ((selectOf (- 1) greek)\<lparr>MaxHeight := DefaultInteractiveSelect_MaxHeight stdDeps\<rparr>) []
       = AwaitingKey ((greekSelect 0 0 5 [] greek ''alpha'' 2)\<lparr>MaxHeight := 5\<rparr>)
   \<and> multiselectShow stdDeps (multiselectOf (- 1) greek) [] = Panicked
   \<and> multiselectShow stdDeps
        ((multiselectOf (- 1) greek)\<lparr>MaxHeight := DefaultInteractiveMultiselect_MaxHeight stdDeps\<rparr>) []
       = AwaitingKey ((greekMultiselect 0 0 5 [] greek [] 2)\<lparr>MaxHeight := 5\<rparr>)"
  by code_simp

text \<open>
  C10. A backspace on an empty query is not a no-op. In both engines, when the fuzzy
  stage returns the candidates unchanged for the empty query, the query stays empty and
  the filtered list is the candidate list, and the focus and the window are reset to 0
  and \<open>[0, min(MaxHeight, len(candidates)))\<close>, whatever they were.
\<close>

theorem backspace_on_empty_query_resets_focus_and_window:
  assumes sq: "fuzzySearchString p = []" and sf: "filterMatches d p = optionsStr p"
    and sh: "0 \<le> MaxHeight p"
    and sfocus: "0 \<le> selectedOption p" "selectedOption p < int (length (optionsStr p))"
    and sk: "Code k = Backspace"
    and mq: "fuzzySearchString m = []" and mf: "filterMatches d m = optionsStr m"
    and mh: "0 \<le> MaxHeight m"
    and mv: "validIn (optionsStr m) (selectedOptions m)"
    and mk: "Code j = Backspace" "KeyConfirm m \<noteq> Backspace" "KeySelect m \<noteq> Backspace"
  shows "selectKey d p k
           = Some (Continue (p\<lparr>fuzzySearchMatches := optionsStr p,
                               selectedOption := 0, displayedOptionsStart := 0,
                               displayedOptionsEnd := min (MaxHeight p) (int (length (optionsStr p))),
                               renders := renders p + 2,
                               result := optionsStr p ! 0\<rparr>))
       \<and> multiselectKey d m j
           = Some (Continue (m\<lparr>fuzzySearchMatches := optionsStr m,
                               selectedOption := 0, displayedOptionsStart := 0,
                               displayedOptionsEnd := min (MaxHeight m) (int (length (optionsStr m))),
                               renders := renders m + 2\<rparr>))"
proof
  let ?q = "p\<lparr>fuzzySearchMatches := optionsStr p\<rparr>"
  have fq: "filterMatches d ?q = optionsStr p"
    using sf filterMatches_cong [of ?q p d] by simp
  let ?r1 = "?q\<lparr>fuzzySearchMatches := optionsStr p, renders := renders p + 1,
                 result := optionsStr p ! nat (selectedOption p)\<rparr>"
  have ne: "optionsStr p \<noteq> []" using sfocus by auto
  have r1: "renderSelectMenu d ?q = Some ?r1"
    using fq sfocus ne by (simp add: renderSelectMenu_def Let_def)
  let ?w = "?r1\<lparr>selectedOption := 0, displayedOptionsStart := 0,
                 displayedOptionsEnd := min (MaxHeight p) (int (length (optionsStr p)))\<rparr>"
  have w: "resetWindow d ?r1 = Some ?w"
    using sh resetWindow_Some [of ?r1 d] by simp
  have fw: "filterMatches d ?w = optionsStr p"
    using sf filterMatches_cong [of ?w p d] by simp
  have r2: "renderSelectMenu d ?w
              = Some (?w\<lparr>fuzzySearchMatches := optionsStr p, renders := renders p + 2,
                        result := optionsStr p ! 0\<rparr>)"
    using fw sfocus ne by (simp add: renderSelectMenu_def Let_def)
  show "selectKey d p k
           = Some (Continue (p\<lparr>fuzzySearchMatches := optionsStr p,
                               selectedOption := 0, displayedOptionsStart := 0,
                               displayedOptionsEnd := min (MaxHeight p) (int (length (optionsStr p))),
                               renders := renders p + 2,
                               result := optionsStr p ! 0\<rparr>))"
    using sk sq r1 w r2 by (simp add: selectKey_def eraseRune_empty)
next
  let ?q = "m\<lparr>fuzzySearchMatches := optionsStr m\<rparr>"
  have fq: "filterMatches d ?q = optionsStr m"
    using mf filterMatches_cong [of ?q m d] by simp
  let ?r1 = "?q\<lparr>fuzzySearchMatches := optionsStr m, renders := renders m + 1\<rparr>"
  have r1: "mRenderSelectMenu d ?q = Some ?r1"
    using fq mv mRenderSelectMenu_valid [of ?q d] by simp
  let ?w = "?r1\<lparr>selectedOption := 0, displayedOptionsStart := 0,
                 displayedOptionsEnd := min (MaxHeight m) (int (length (optionsStr m)))\<rparr>"
  have w: "resetWindow d ?r1 = Some ?w"
    using mh resetWindow_Some [of ?r1 d] by simp
  have fw: "filterMatches d ?w = optionsStr m"
    using mf filterMatches_cong [of ?w m d] by simp
  have r2: "mRenderSelectMenu d ?w
              = Some (?w\<lparr>fuzzySearchMatches := optionsStr m, renders := renders m + 2\<rparr>)"
    using fw mv mRenderSelectMenu_valid [of ?w d] by simp
  show "multiselectKey d m j
           = Some (Continue (m\<lparr>fuzzySearchMatches := optionsStr m,
                               selectedOption := 0, displayedOptionsStart := 0,
                               displayedOptionsEnd := min (MaxHeight m) (int (length (optionsStr m))),
                               renders := renders m + 2\<rparr>))"
    using mk mq r1 w r2 by (simp add: multiselectKey_def eraseRune_empty)
qed

text \<open>
  Witness: after three down keys the focus is 3 under the window \<open>[1, 4)\<close>; the backspace
  puts the focus at 0 under \<open>[0, 3)\<close>.
\<close>

theorem backspace_on_empty_query_resets_focus_and_window_witness:
  "selectShow stdDeps (selectOf 3 greek) [press Down, press Down, press Down]
     = AwaitingKey (greekSelect 3 1 4 [] greek ''delta'' 5)
   \<and> selectKey stdDeps (greekSelect 3 1 4 [] greek ''delta'' 5) (press Backspace)
     = Some (Continue (greekSelect 0 0 3 [] greek ''alpha'' 7))
   \<and> multiselectShow stdDeps (multiselectOf 3 greek) [press Down, press Down, press Down]
     = AwaitingKey (greekMultiselect 3 1 4 [] greek [] 5)
   \<and> multiselectKey stdDeps (greekMultiselect 3 1 4 [] greek [] 5) (press Backspace)
     = Some (Continue (greekMultiselect 0 0 3 [] greek [] 7))"
proof -
  let ?p = "greekSelect 3 1 4 [] greek ''delta'' 5"
  let ?m = "greekMultiselect 3 1 4 [] greek [] 5"
  have r1: "selectShow stdDeps (selectOf 3 greek) [press Down, press Down, press Down]
              = AwaitingKey ?p" by code_simp
  have r2: "multiselectShow stdDeps (multiselectOf 3 greek) [press Down, press Down, press Down]
              = AwaitingKey ?m" by code_simp
  have s1: "fuzzySearchString ?p = []" by code_simp
  have s2: "filterMatches stdDeps ?p = optionsStr ?p" by code_simp
  have s3: "0 \<le> MaxHeight ?p" by code_simp
  have s4: "0 \<le> selectedOption ?p" by code_simp
  have s5: "selectedOption ?p < int (length (optionsStr ?p))" by code_simp
  have s6: "Code (press Backspace) = Backspace" by code_simp
  have m1: "fuzzySearchString ?m = []" by code_simp
  have m2: "filterMatches stdDeps ?m = optionsStr ?m" by code_simp
  have m3: "0 \<le> MaxHeight ?m" by code_simp
  have m4: "validIn (optionsStr ?m) (selectedOptions ?m)" by code_simp
  have m5: "KeyConfirm ?m \<noteq> Backspace" by code_simp
  have m6: "KeySelect ?m \<noteq> Backspace" by code_simp
  have e1: "?p\<lparr>fuzzySearchMatches := optionsStr ?p, selectedOption := 0,
               displayedOptionsStart := 0,
               displayedOptionsEnd := min (MaxHeight ?p) (int (length (optionsStr ?p))),
               renders := renders ?p + 2, result := optionsStr ?p ! 0\<rparr>
            = greekSelect 0 0 3 [] greek ''alpha'' 7" by code_simp
  have e2: "?m\<lparr>fuzzySearchMatches := optionsStr ?m, selectedOption := 0,
               displayedOptionsStart := 0,
               displayedOptionsEnd := min (MaxHeight ?m) (int (length (optionsStr ?m))),
               renders := renders ?m + 2\<rparr>
            = greekMultiselect 0 0 3 [] greek [] 7" by code_simp
  note t = backspace_on_empty_query_resets_focus_and_window
             [OF s1 s2 s3 s4 s5 s6 m1 m2 m3 m4 s6 m5 m6]
  from t e1 have t1: "selectKey stdDeps ?p (press Backspace)
      = Some (Continue (greekSelect 0 0 3 [] greek ''alpha'' 7))" by simp
  from t e2 have t2: "multiselectKey stdDeps ?m (press Backspace)
      = Some (Continue (greekMultiselect 0 0 3 [] greek [] 7))" by simp
  show ?thesis by (intro conjI r1 t1 r2 t2)
qed

end
